theory Spec2Isabelle
  imports Complex_Main "HOL-Library.Multiset"
begin

section \<open>The command-line interface of the cloud provider\<close>

text \<open>
  \<^verbatim>\<open>get_instance_details.py\<close> talks to the provider only through
  \<^verbatim>\<open>subprocess.run(command, ...)\<close> followed by \<^verbatim>\<open>json.loads\<close>.
  A command is the list of its words. Running one either fails
  (\<^verbatim>\<open>CalledProcessError\<close>), prints something that is not JSON
  (\<^verbatim>\<open>JSONDecodeError\<close>), or yields a JSON object.

  The JSON objects are modelled at the shape the provider documents. A key the program
  reads with \<^verbatim>\<open>.get(key, default)\<close> is an \<open>option\<close> (\<open>None\<close>: the key is absent);
  the four top-level lists are read with the default \<^verbatim>\<open>[]\<close> everywhere, so an absent
  list and an empty one are the same value \<open>[]\<close>.

  A price arrives as a JSON string and goes through Python's \<^verbatim>\<open>float(...)\<close>. The
  string is represented by what \<^verbatim>\<open>float\<close> makes of it: a finite number (an exact
  rational here; the program only compares prices, tests them for zero and copies them) or
  a \<^verbatim>\<open>ValueError\<close>. The values \<^verbatim>\<open>nan\<close> and \<^verbatim>\<open>inf\<close> are outside the
  model.
\<close>

datatype float_arg = FloatOk rat | FloatValueError

record processor_info =
  SupportedArchitectures :: "string list option"

record vcpu_info =
  DefaultVCpus :: "int option"

record memory_info =
  SizeInMiB :: "int option"

record network_info =
  MaximumNetworkInterfaces :: "int option"

record instance_info =
  InstanceType :: string
  ProcessorInfo :: "processor_info option"
  SupportedPlatforms :: "string list option"
  HypervisorType :: "string option"
  VCpuInfo :: "vcpu_info option"
  MemoryInfo :: "memory_info option"
  NetworkInfo :: "network_info option"

record zone_info =
  ZoneName :: string

record spot_price_entry =
  AvailabilityZone :: "string option"
  SpotPrice :: "float_arg option"

text \<open>
  One element of \<^verbatim>\<open>PriceList\<close> is a string holding JSON of its own. Of the parsed
  product the program reads \<^verbatim>\<open>terms.OnDemand\<close> (a dictionary, iterated in document
  order, so a list of its values here), of each term its \<^verbatim>\<open>priceDimensions\<close> (again a
  dictionary iterated in order) and of each dimension \<^verbatim>\<open>pricePerUnit.USD\<close>.
\<close>

record price_dimension =
  pricePerUnit_USD :: "float_arg option"

record term_info =
  priceDimensions :: "price_dimension list"

datatype product = ProductNotJson | ProductData "term_info list"

record aws_output =
  InstanceTypes :: "instance_info list"
  AvailabilityZones :: "zone_info list"
  SpotPriceHistory :: "spot_price_entry list"
  PriceList :: "product list"

datatype 'a completed = CalledProcessError | JSONDecodeError | Completed 'a

type_synonym command = "string list"

text \<open>
  The world outside the program: what each command answers, and the clock read by
  \<^verbatim>\<open>get_spot_prices\<close> (already formatted as \<^verbatim>\<open>%Y-%m-%dT%H:%M:%S\<close>).
\<close>

record env =
  aws_cli :: "command \<Rightarrow> aws_output completed"
  current_time :: string

section \<open>Exceptions\<close>

text \<open>
  \<^verbatim>\<open>sys.exit(n)\<close> raises \<^verbatim>\<open>SystemExit\<close>, which is not a subclass of
  \<^verbatim>\<open>Exception\<close>: the handler \<^verbatim>\<open>except Exception\<close> of \<^verbatim>\<open>main\<close> lets it
  through. On inputs of the documented shape the other exceptions the program can raise
  are the \<^verbatim>\<open>IndexError\<close> of \<^verbatim>\<open>[0]\<close> on an empty list and the
  \<^verbatim>\<open>ValueError\<close> of \<^verbatim>\<open>float\<close> and of a pool with no worker.
\<close>

datatype py_exn = SystemExit int | IndexError | ValueError

fun is_Exception :: "py_exn \<Rightarrow> bool" where
  "is_Exception (SystemExit n) = False"
| "is_Exception IndexError = True"
| "is_Exception ValueError = True"

section \<open>Python built-ins\<close>

definition digit_char :: "nat \<Rightarrow> char" where
  "digit_char d = ''0123456789'' ! d"

function str_nat :: "nat \<Rightarrow> string" where
  "str_nat n = (if n < 10 then [digit_char n] else str_nat (n div 10) @ [digit_char (n mod 10)])"
  by pat_completeness auto
termination
  by (relation "measure (\<lambda>n. n)") auto

declare str_nat.simps [simp del]

text \<open>\<^verbatim>\<open>str(i)\<close> of an integer: its decimal digits, with a minus sign below zero.\<close>

definition str_int :: "int \<Rightarrow> string" where
  "str_int i = (if i < 0 then CHR ''-'' # str_nat (nat (- i)) else str_nat (nat i))"

text \<open>\<^verbatim>\<open>str.lower\<close>, on ASCII letters (the platform tokens of the provider are ASCII).\<close>

definition lower_char :: "char \<Rightarrow> char" where
  "lower_char c =
     (case map_of (zip ''ABCDEFGHIJKLMNOPQRSTUVWXYZ'' ''abcdefghijklmnopqrstuvwxyz'') c of
        Some l \<Rightarrow> l
      | None \<Rightarrow> c)"

definition lower :: "string \<Rightarrow> string" where
  "lower s = map lower_char s"

text \<open>
  \<^verbatim>\<open>float(price_info.get(key, 0))\<close>: an absent key gives \<^verbatim>\<open>float(0)\<close>, that is
  \<^verbatim>\<open>0.0\<close>.
\<close>

fun py_float :: "float_arg option \<Rightarrow> py_exn + rat" where
  "py_float None = Inr 0"
| "py_float (Some (FloatOk q)) = Inr q"
| "py_float (Some FloatValueError) = Inl ValueError"

section \<open>Running a command\<close>

text \<open>
  \<^verbatim>\<open>run_aws_command\<close>: both failures print to standard error and end in
  \<^verbatim>\<open>sys.exit(1)\<close>.
\<close>

definition run_aws_command :: "env \<Rightarrow> command \<Rightarrow> py_exn + aws_output" where
  "run_aws_command w command =
     (case aws_cli w command of
        Completed result \<Rightarrow> Inr result
      | CalledProcessError \<Rightarrow> Inl (SystemExit 1)
      | JSONDecodeError \<Rightarrow> Inl (SystemExit 1))"

section \<open>Hardware details\<close>

record resources_t =
  cpu :: string
  memory_gib :: rat
  ephemeral_storage :: string
  pods :: string

text \<open>
  The field \<open>memory_gib\<close> stands for the string \<^verbatim>\<open>f"{memory_mib / 1024}Gi"\<close>: it
  holds the quotient, and the rendering of a Python float as text is not modelled.
\<close>

record instance_details =
  architecture :: string
  operatingSystems :: "string list"
  resources :: resources_t

text \<open>
  \<^verbatim>\<open>instance_info.get("ProcessorInfo", {}).get("SupportedArchitectures", dflt)\<close>
\<close>

definition supported_architectures :: "instance_info \<Rightarrow> string list \<Rightarrow> string list" where
  "supported_architectures instance_info dflt =
     (case ProcessorInfo instance_info of
        None \<Rightarrow> dflt
      | Some p \<Rightarrow> (case SupportedArchitectures p of None \<Rightarrow> dflt | Some archs \<Rightarrow> archs))"

definition describe_instance_types_command :: "string \<Rightarrow> string \<Rightarrow> command" where
  "describe_instance_types_command region instance_type =
     [''aws'', ''ec2'', ''describe-instance-types'',
      ''--region'', region,
      ''--instance-types'', instance_type]"

text \<open>
  The body of \<^verbatim>\<open>get_instance_details\<close> after the lookup of
  \<^verbatim>\<open>result["InstanceTypes"][0]\<close>. The only statement that can raise is the
  \<^verbatim>\<open>[0]\<close> on the list of architectures.
\<close>

definition details_of_info :: "instance_info \<Rightarrow> py_exn + instance_details" where
  "details_of_info instance_info =
     (case supported_architectures instance_info [''x86_64''] of
        [] \<Rightarrow> Inl IndexError
      | architecture0 # _ \<Rightarrow>
          (let architecture1 = (if architecture0 = ''x86_64'' then ''amd64'' else architecture0);
               operating_systems =
                 (case SupportedPlatforms instance_info of
                    Some (p # ps) \<Rightarrow> map lower (p # ps)
                  | _ \<Rightarrow>
                      (if HypervisorType instance_info \<noteq> Some ''nitro''
                          \<or> ''windows'' \<in> set (supported_architectures instance_info [])
                       then [''linux''] @ [''windows'']
                       else [''linux'']));
               vcpu_count = str_int (case VCpuInfo instance_info of
                                       None \<Rightarrow> 0
                                     | Some v \<Rightarrow> (case DefaultVCpus v of None \<Rightarrow> 0 | Some n \<Rightarrow> n));
               memory_mib = (case MemoryInfo instance_info of
                               None \<Rightarrow> 0
                             | Some m \<Rightarrow> (case SizeInMiB m of None \<Rightarrow> 0 | Some n \<Rightarrow> n));
               max_pods = str_int ((case NetworkInfo instance_info of
                                      None \<Rightarrow> 8
                                    | Some n \<Rightarrow>
                                        (case MaximumNetworkInterfaces n of
                                           None \<Rightarrow> 8 | Some k \<Rightarrow> k)) * 10)
           in Inr \<lparr>architecture = architecture1,
                   operatingSystems = operating_systems,
                   resources = \<lparr>cpu = vcpu_count,
                                memory_gib = of_int memory_mib / 1024,
                                ephemeral_storage = ''20Gi'',
                                pods = max_pods\<rparr>\<rparr>))"

text \<open>
  \<^verbatim>\<open>get_instance_details\<close>: \<open>Inr None\<close> is the \<^verbatim>\<open>return None\<close> of an
  instance type the region does not know.
\<close>

definition get_instance_details :: "env \<Rightarrow> string \<Rightarrow> string \<Rightarrow> py_exn + instance_details option" where
  "get_instance_details w region instance_type =
     (case run_aws_command w (describe_instance_types_command region instance_type) of
        Inl e \<Rightarrow> Inl e
      | Inr result \<Rightarrow>
          (case InstanceTypes result of
             [] \<Rightarrow> Inr None
           | instance_info # _ \<Rightarrow>
               (case details_of_info instance_info of
                  Inl e \<Rightarrow> Inl e
                | Inr d \<Rightarrow> Inr (Some d))))"

section \<open>Spot prices\<close>

record spot_info =
  price :: rat
  available :: bool

definition describe_spot_price_history_command :: "string \<Rightarrow> string \<Rightarrow> string \<Rightarrow> command" where
  "describe_spot_price_history_command region instance_type now =
     [''aws'', ''ec2'', ''describe-spot-price-history'',
      ''--region'', region,
      ''--instance-types'', instance_type,
      ''--product-descriptions'', ''Linux/UNIX'', ''Windows'',
      ''--start-time'', now,
      ''--end-time'', now]"

text \<open>
  The loop over \<^verbatim>\<open>SpotPriceHistory\<close>. The dictionary \<^verbatim>\<open>prices_by_az\<close> is keyed
  by whatever \<^verbatim>\<open>price_info.get("AvailabilityZone")\<close> returns, \<^verbatim>\<open>None\<close> included.
  Python evaluates \<^verbatim>\<open>az not in prices_by_az\<close> first and reads the stored price only
  for a key that is there; every stored entry has its \<^verbatim>\<open>"price"\<close>, so the default
  \<^verbatim>\<open>float('inf')\<close> is never used.
\<close>

fun spot_price_loop ::
  "spot_price_entry list \<Rightarrow> (string option \<rightharpoonup> spot_info) \<Rightarrow> py_exn + (string option \<rightharpoonup> spot_info)"
where
  "spot_price_loop [] prices_by_az = Inr prices_by_az"
| "spot_price_loop (price_info # rest) prices_by_az =
     (let az = AvailabilityZone price_info in
      case py_float (SpotPrice price_info) of
        Inl e \<Rightarrow> Inl e
      | Inr p \<Rightarrow>
          (if (case prices_by_az az of None \<Rightarrow> True | Some old \<Rightarrow> p < price old)
           then spot_price_loop rest (prices_by_az(az \<mapsto> \<lparr>price = p, available = True\<rparr>))
           else spot_price_loop rest prices_by_az))"

text \<open>
  \<^verbatim>\<open>get_spot_prices\<close>: a failed or unreadable query is caught here and gives the
  empty dictionary.
\<close>

definition get_spot_prices :: "env \<Rightarrow> string \<Rightarrow> string \<Rightarrow> py_exn + (string option \<rightharpoonup> spot_info)" where
  "get_spot_prices w region instance_type =
     (case aws_cli w (describe_spot_price_history_command region instance_type (current_time w)) of
        CalledProcessError \<Rightarrow> Inr Map.empty
      | JSONDecodeError \<Rightarrow> Inr Map.empty
      | Completed spot_data \<Rightarrow> spot_price_loop (SpotPriceHistory spot_data) Map.empty)"

section \<open>On-demand price\<close>

definition region_mapping :: "(string \<times> string) list" where
  "region_mapping =
     [(''us-east-1'', ''US East (N. Virginia)''),
      (''us-east-2'', ''US East (Ohio)''),
      (''us-west-1'', ''US West (N. California)''),
      (''us-west-2'', ''US West (Oregon)''),
      (''eu-west-1'', ''EU (Ireland)''),
      (''eu-central-1'', ''EU (Frankfurt)''),
      (''ap-northeast-1'', ''Asia Pacific (Tokyo)''),
      (''ap-southeast-1'', ''Asia Pacific (Singapore)''),
      (''ap-southeast-2'', ''Asia Pacific (Sydney)''),
      (''ap-south-1'', ''Asia Pacific (Mumbai)''),
      (''eu-west-2'', ''EU (London)''),
      (''eu-west-3'', ''EU (Paris)''),
      (''eu-north-1'', ''EU (Stockholm)''),
      (''sa-east-1'', ''South America (Sao Paulo)''),
      (''ca-central-1'', ''Canada (Central)''),
      (''ap-east-1'', ''Asia Pacific (Hong Kong)''),
      (''me-south-1'', ''Middle East (Bahrain)''),
      (''af-south-1'', ''Africa (Cape Town)''),
      (''eu-south-1'', ''EU (Milan)'')]"

definition get_products_command :: "string \<Rightarrow> string \<Rightarrow> command" where
  "get_products_command region instance_type =
     (let region_name = (case map_of region_mapping region of None \<Rightarrow> region | Some n \<Rightarrow> n) in
      [''aws'', ''pricing'', ''get-products'',
       ''--service-code'', ''AmazonEC2'',
       ''--filters'',
       ''Type=TERM_MATCH,Field=instanceType,Value='' @ instance_type,
       ''Type=TERM_MATCH,Field=location,Value='' @ region_name,
       ''Type=TERM_MATCH,Field=operatingSystem,Value=Linux'',
       ''Type=TERM_MATCH,Field=preInstalledSw,Value=NA'',
       ''Type=TERM_MATCH,Field=tenancy,Value=Shared'',
       ''Type=TERM_MATCH,Field=capacitystatus,Value=Used'',
       ''--region'', ''us-east-1''])"

text \<open>
  The two inner loops of \<^verbatim>\<open>get_on_demand_price\<close> return at the first price
  dimension they meet: \<open>None\<close> says that the terms hold no dimension and the outer loop
  goes on. A \<^verbatim>\<open>ValueError\<close> of \<^verbatim>\<open>float\<close> is not among the exceptions the
  \<^verbatim>\<open>try\<close> catches.
\<close>

fun first_price_of_terms :: "term_info list \<Rightarrow> (py_exn + rat) option" where
  "first_price_of_terms [] = None"
| "first_price_of_terms (term_info # terms) =
     (case priceDimensions term_info of
        [] \<Rightarrow> first_price_of_terms terms
      | price_info # _ \<Rightarrow> Some (py_float (pricePerUnit_USD price_info)))"

fun price_list_loop :: "product list \<Rightarrow> py_exn + rat option" where
  "price_list_loop [] = Inr None"
| "price_list_loop (ProductNotJson # rest) = price_list_loop rest"
| "price_list_loop (ProductData terms # rest) =
     (case first_price_of_terms terms of
        None \<Rightarrow> price_list_loop rest
      | Some (Inl e) \<Rightarrow> Inl e
      | Some (Inr p) \<Rightarrow> Inr (Some p))"

definition get_on_demand_price :: "env \<Rightarrow> string \<Rightarrow> string \<Rightarrow> py_exn + rat option" where
  "get_on_demand_price w region instance_type =
     (case aws_cli w (get_products_command region instance_type) of
        CalledProcessError \<Rightarrow> Inr None
      | JSONDecodeError \<Rightarrow> Inr None
      | Completed pricing_data \<Rightarrow> price_list_loop (PriceList pricing_data))"

section \<open>Availability zones and families\<close>

definition get_availability_zones :: "env \<Rightarrow> string \<Rightarrow> py_exn + string list" where
  "get_availability_zones w region =
     (case run_aws_command w [''aws'', ''ec2'', ''describe-availability-zones'', ''--region'', region] of
        Inl e \<Rightarrow> Inl e
      | Inr result \<Rightarrow> Inr (map ZoneName (AvailabilityZones result)))"

definition get_instance_types_for_family :: "env \<Rightarrow> string \<Rightarrow> string \<Rightarrow> py_exn + string list" where
  "get_instance_types_for_family w region instance_family =
     (case run_aws_command w
             [''aws'', ''ec2'', ''describe-instance-types'',
              ''--region'', region,
              ''--filters'', ''Name=instance-type,Values='' @ instance_family @ ''.*''] of
        Inl e \<Rightarrow> Inl e
      | Inr result \<Rightarrow> Inr (map InstanceType (InstanceTypes result)))"

section \<open>One instance type\<close>

text \<open>The field \<open>values_t\<close> is the key \<^verbatim>\<open>"values"\<close> of a requirement.\<close>

record requirement =
  key :: string
  operator :: string
  values_t :: "string list"

record offering =
  Price :: rat
  Available :: bool
  Requirements :: "requirement list"

record instance_type_record = instance_details +
  name :: string
  offerings :: "offering list"

definition spot_offering :: "spot_info \<Rightarrow> string \<Rightarrow> offering" where
  "spot_offering info az =
     \<lparr>Price = price info,
      Available = available info,
      Requirements =
        [\<lparr>key = ''karpenter.sh/capacity-type'', operator = ''In'', values_t = [''spot'']\<rparr>,
         \<lparr>key = ''topology.kubernetes.io/zone'', operator = ''In'', values_t = [az]\<rparr>]\<rparr>"

definition on_demand_offering :: "rat \<Rightarrow> string \<Rightarrow> offering" where
  "on_demand_offering on_demand_price az =
     \<lparr>Price = on_demand_price,
      Available = True,
      Requirements =
        [\<lparr>key = ''karpenter.sh/capacity-type'', operator = ''In'', values_t = [''on-demand'']\<rparr>,
         \<lparr>key = ''topology.kubernetes.io/zone'', operator = ''In'', values_t = [az]\<rparr>]\<rparr>"

text \<open>
  The first loop of \<^verbatim>\<open>process_instance_type\<close>. A zone without entry gets the price
  \<^verbatim>\<open>None\<close>; \<^verbatim>\<open>if spot_info["price"]\<close> is false for \<^verbatim>\<open>None\<close> and for
  \<^verbatim>\<open>0.0\<close>.
\<close>

fun spot_offerings_loop :: "(string option \<rightharpoonup> spot_info) \<Rightarrow> string list \<Rightarrow> offering list \<Rightarrow> offering list" where
  "spot_offerings_loop spot_prices [] offs = offs"
| "spot_offerings_loop spot_prices (az # azs) offs =
     (case spot_prices (Some az) of
        None \<Rightarrow> spot_offerings_loop spot_prices azs offs
      | Some info \<Rightarrow>
          (if price info \<noteq> 0
           then spot_offerings_loop spot_prices azs (offs @ [spot_offering info az])
           else spot_offerings_loop spot_prices azs offs))"

text \<open>
  The second loop runs under \<^verbatim>\<open>if on_demand_price\<close>, false for \<^verbatim>\<open>None\<close> and for
  \<^verbatim>\<open>0.0\<close>.
\<close>

fun on_demand_offerings_loop :: "rat \<Rightarrow> string list \<Rightarrow> offering list \<Rightarrow> offering list" where
  "on_demand_offerings_loop p [] offs = offs"
| "on_demand_offerings_loop p (az # azs) offs =
     on_demand_offerings_loop p azs (offs @ [on_demand_offering p az])"

definition build_offerings :: "(string option \<rightharpoonup> spot_info) \<Rightarrow> rat option \<Rightarrow> string list \<Rightarrow> offering list" where
  "build_offerings spot_prices on_demand_price all_azs =
     (let offs = spot_offerings_loop spot_prices all_azs [] in
      case on_demand_price of
        None \<Rightarrow> offs
      | Some p \<Rightarrow> (if p \<noteq> 0 then on_demand_offerings_loop p all_azs offs else offs))"

text \<open>
  \<^verbatim>\<open>process_instance_type\<close>: \<open>Inr None\<close> is \<^verbatim>\<open>return None\<close>, \<open>Inl e\<close> an
  exception that leaves the function.
\<close>

definition process_instance_type ::
  "env \<Rightarrow> string \<Rightarrow> string \<Rightarrow> string list \<Rightarrow> py_exn + instance_type_record option"
where
  "process_instance_type w region instance_type all_azs =
     (case get_instance_details w region instance_type of
        Inl e \<Rightarrow> Inl e
      | Inr None \<Rightarrow> Inr None
      | Inr (Some details) \<Rightarrow>
          (case get_spot_prices w region instance_type of
             Inl e \<Rightarrow> Inl e
           | Inr spot_prices \<Rightarrow>
               (case get_on_demand_price w region instance_type of
                  Inl e \<Rightarrow> Inl e
                | Inr on_demand_price \<Rightarrow>
                    Inr (Some \<lparr>architecture = architecture details,
                               operatingSystems = operatingSystems details,
                               resources = resources details,
                               name = instance_type,
                               offerings = build_offerings spot_prices on_demand_price all_azs\<rparr>))))"

section \<open>The family tokens\<close>

text \<open>
  \<^verbatim>\<open>re.sub(r'\.\d+.*$', '', family)\<close>. The pattern matches at a dot that is followed
  by a digit, provided the rest of the token can be consumed by \<^verbatim>\<open>.*$\<close>: the
  \<^verbatim>\<open>.\<close> of a regular expression does not match a line feed, and \<^verbatim>\<open>$\<close> matches at
  the end of the string and before a line feed that ends it. The match is greedy, so what
  stays behind the leftmost match is nothing or that last line feed, in which no second
  match can start. Digits are the ASCII digits.
\<close>

definition is_digit :: "char \<Rightarrow> bool" where
  "is_digit c = (c \<in> set ''0123456789'')"

definition after_dot_star :: "string \<Rightarrow> string" where
  "after_dot_star s = dropWhile (\<lambda>c. c \<noteq> CHR 0x0A) s"

definition size_suffix_at :: "string \<Rightarrow> bool" where
  "size_suffix_at s =
     (case s of
        c # d # rest \<Rightarrow>
          c = CHR ''.'' \<and> is_digit d \<and> (after_dot_star rest = [] \<or> after_dot_star rest = [CHR 0x0A])
      | _ \<Rightarrow> False)"

fun strip_size_suffix :: "string \<Rightarrow> string" where
  "strip_size_suffix [] = []"
| "strip_size_suffix (c # cs) =
     (if size_suffix_at (c # cs) then after_dot_star (tl cs) else c # strip_size_suffix cs)"

text \<open>
  The loop of \<^verbatim>\<open>main\<close> over \<^verbatim>\<open>args.instance_families\<close>; a failing query leaves
  it through \<^verbatim>\<open>sys.exit\<close>.
\<close>

fun collect_instance_types :: "env \<Rightarrow> string \<Rightarrow> string list \<Rightarrow> string list \<Rightarrow> py_exn + string list" where
  "collect_instance_types w region [] all_instance_types = Inr all_instance_types"
| "collect_instance_types w region (family # families) all_instance_types =
     (case get_instance_types_for_family w region (strip_size_suffix family) of
        Inl e \<Rightarrow> Inl e
      | Inr instance_types \<Rightarrow>
          collect_instance_types w region families (all_instance_types @ instance_types))"

section \<open>The pool of workers\<close>

text \<open>
  A future holds what its call of \<^verbatim>\<open>process_instance_type\<close> returned or raised (the
  pool stores any \<^verbatim>\<open>BaseException\<close> in the future, and \<^verbatim>\<open>future.result()\<close> raises
  it again in the collecting thread). The loop over \<^verbatim>\<open>as_completed\<close> keeps a result
  that is not \<^verbatim>\<open>None\<close>, prints and drops an \<^verbatim>\<open>Exception\<close>, and is left by
  anything else, which here is the \<^verbatim>\<open>SystemExit\<close> of \<^verbatim>\<open>run_aws_command\<close>.
\<close>

type_synonym future = "string \<times> (py_exn + instance_type_record option)"

fun collect_results :: "future list \<Rightarrow> instance_type_record list \<Rightarrow> py_exn + instance_type_record list" where
  "collect_results [] results = Inr results"
| "collect_results ((instance_type, Inr (Some result)) # futures) results =
     collect_results futures (results @ [result])"
| "collect_results ((instance_type, Inr None) # futures) results =
     collect_results futures results"
| "collect_results ((instance_type, Inl e) # futures) results =
     (if is_Exception e then collect_results futures results else Inl e)"

text \<open>
  The order in which the futures complete is not the program's to choose: it is a
  parameter \<open>as_completed\<close>, which a scheduler instantiates with a permutation of the
  futures submitted. The workers share nothing, so what a future holds does not depend
  on the order.
\<close>

definition fan_out ::
  "env \<Rightarrow> (future list \<Rightarrow> future list) \<Rightarrow> string \<Rightarrow> string list \<Rightarrow> string list
     \<Rightarrow> py_exn + instance_type_record list"
where
  "fan_out w as_completed region all_azs all_instance_types =
     collect_results
       (as_completed
          (map (\<lambda>instance_type.
                  (instance_type, process_instance_type w region instance_type all_azs))
               all_instance_types))
       []"

section \<open>The program\<close>

record args =
  region_arg :: string
  instance_families :: "string list"
  output_arg :: string
  max_workers :: int

text \<open>
  What a run leaves behind: the exit status of the process and the file it wrote, if it
  wrote one (its path and the records that \<^verbatim>\<open>json.dumps\<close> serialises).
\<close>

record run =
  exit_status :: int
  written :: "(string \<times> instance_type_record list) option"

text \<open>
  \<^verbatim>\<open>main\<close> up to the list \<^verbatim>\<open>results\<close>. \<^verbatim>\<open>ThreadPoolExecutor\<close> raises a
  \<^verbatim>\<open>ValueError\<close> when \<^verbatim>\<open>max_workers\<close> is not positive.
\<close>

definition main_results :: "env \<Rightarrow> (future list \<Rightarrow> future list) \<Rightarrow> args \<Rightarrow> py_exn + instance_type_record list" where
  "main_results w as_completed a =
     (case get_availability_zones w (region_arg a) of
        Inl e \<Rightarrow> Inl e
      | Inr all_azs \<Rightarrow>
          (case collect_instance_types w (region_arg a) (instance_families a) [] of
             Inl e \<Rightarrow> Inl e
           | Inr all_instance_types \<Rightarrow>
               (if all_instance_types = [] then Inl (SystemExit 1)
                else if max_workers a \<le> 0 then Inl ValueError
                else fan_out w as_completed (region_arg a) all_azs all_instance_types)))"

text \<open>
  \<^verbatim>\<open>sys.exit(n)\<close> ends the process with status \<open>n\<close>, any other exception that
  reaches the top with status 1; in both cases the statements that write the file have
  not run.
\<close>

definition main :: "env \<Rightarrow> (future list \<Rightarrow> future list) \<Rightarrow> args \<Rightarrow> run" where
  "main w as_completed a =
     (case main_results w as_completed a of
        Inl (SystemExit n) \<Rightarrow> \<lparr>exit_status = n, written = None\<rparr>
      | Inl _ \<Rightarrow> \<lparr>exit_status = 1, written = None\<rparr>
      | Inr results \<Rightarrow> \<lparr>exit_status = 0, written = Some (output_arg a, results)\<rparr>)"

section \<open>Vocabulary of the properties\<close>

text \<open>
  The requirement that ties an offering to a capacity type, the one that ties it to a
  zone, and the offerings that carry them.
\<close>

definition capacity_type_req :: "string \<Rightarrow> requirement" where
  "capacity_type_req c = \<lparr>key = ''karpenter.sh/capacity-type'', operator = ''In'', values_t = [c]\<rparr>"

definition zone_req :: "string \<Rightarrow> requirement" where
  "zone_req z = \<lparr>key = ''topology.kubernetes.io/zone'', operator = ''In'', values_t = [z]\<rparr>"

definition is_spot :: "offering \<Rightarrow> bool" where
  "is_spot off = (capacity_type_req ''spot'' \<in> set (Requirements off))"

definition is_on_demand :: "offering \<Rightarrow> bool" where
  "is_on_demand off = (capacity_type_req ''on-demand'' \<in> set (Requirements off))"

definition in_zone :: "string \<Rightarrow> offering \<Rightarrow> bool" where
  "in_zone z off = (zone_req z \<in> set (Requirements off))"

text \<open>
  The prices the spot query reported under one key of \<^verbatim>\<open>AvailabilityZone\<close>, in the
  order of the answer. An entry without \<^verbatim>\<open>SpotPrice\<close> counts with the price 0 that
  the program reads for it.
\<close>

definition observed_prices :: "string option \<Rightarrow> spot_price_entry list \<Rightarrow> rat list" where
  "observed_prices az entries =
     concat (map (\<lambda>e. case py_float (SpotPrice e) of Inr q \<Rightarrow> [q] | Inl _ \<Rightarrow> [])
                 (filter (\<lambda>e. AvailabilityZone e = az) entries))"

text \<open>What one turn of the first loop of \<^verbatim>\<open>process_instance_type\<close> appends.\<close>

definition spot_offering_for :: "(string option \<rightharpoonup> spot_info) \<Rightarrow> string \<Rightarrow> offering list" where
  "spot_offering_for spot_prices az =
     (case spot_prices (Some az) of
        None \<Rightarrow> []
      | Some info \<Rightarrow> if price info \<noteq> 0 then [spot_offering info az] else [])"

text \<open>The record a future contributes to \<^verbatim>\<open>results\<close>, if it does.\<close>

fun contribution :: "future \<Rightarrow> instance_type_record option" where
  "contribution (instance_type, Inr (Some result)) = Some result"
| "contribution (instance_type, Inr None) = None"
| "contribution (instance_type, Inl e) = None"

section \<open>Example worlds\<close>

text \<open>
  A small region for the concrete runs below: two zones, the family \<^verbatim>\<open>m5\<close> with the
  one size \<^verbatim>\<open>m5.xlarge\<close>, and the answers to the spot and the pricing query left
  open. Any other command fails.
\<close>

definition no_output :: aws_output where
  "no_output = \<lparr>InstanceTypes = [], AvailabilityZones = [], SpotPriceHistory = [], PriceList = []\<rparr>"

definition m5_xlarge :: instance_info where
  "m5_xlarge =
     \<lparr>InstanceType = ''m5.xlarge'',
      ProcessorInfo = Some \<lparr>SupportedArchitectures = Some [''x86_64'']\<rparr>,
      SupportedPlatforms = None,
      HypervisorType = Some ''nitro'',
      VCpuInfo = Some \<lparr>DefaultVCpus = Some 4\<rparr>,
      MemoryInfo = Some \<lparr>SizeInMiB = Some 16384\<rparr>,
      NetworkInfo = Some \<lparr>MaximumNetworkInterfaces = Some 4\<rparr>\<rparr>"

definition demo_zones :: "string list" where
  "demo_zones = [''us-east-1a'', ''us-east-1b'']"

definition demo_time :: string where
  "demo_time = ''2024-01-01T00:00:00''"

definition demo_env :: "instance_info list \<Rightarrow> aws_output completed \<Rightarrow> aws_output completed \<Rightarrow> env" where
  "demo_env infos spot_answer pricing_answer =
     \<lparr>aws_cli = (\<lambda>command.
        if command = [''aws'', ''ec2'', ''describe-availability-zones'', ''--region'', ''us-east-1'']
        then Completed (no_output\<lparr>AvailabilityZones := map (\<lambda>z. \<lparr>ZoneName = z\<rparr>) demo_zones\<rparr>)
        else if command = [''aws'', ''ec2'', ''describe-instance-types'', ''--region'', ''us-east-1'',
                           ''--filters'', ''Name=instance-type,Values=m5.*'']
        then Completed (no_output\<lparr>InstanceTypes := infos\<rparr>)
        else if command = describe_instance_types_command ''us-east-1'' ''m5.xlarge''
        then Completed (no_output\<lparr>InstanceTypes := infos\<rparr>)
        else if command = describe_spot_price_history_command ''us-east-1'' ''m5.xlarge'' demo_time
        then spot_answer
        else if command = get_products_command ''us-east-1'' ''m5.xlarge''
        then pricing_answer
        else CalledProcessError),
      current_time = demo_time\<rparr>"

definition demo_args :: args where
  "demo_args = \<lparr>region_arg = ''us-east-1'', instance_families = [''m5''],
                 output_arg = ''instance_types.json'', max_workers = 5\<rparr>"

definition m5_xlarge_details :: instance_details where
  "m5_xlarge_details =
     \<lparr>architecture = ''amd64'', operatingSystems = [''linux''],
      resources = \<lparr>cpu = ''4'', memory_gib = 16, ephemeral_storage = ''20Gi'', pods = ''40''\<rparr>\<rparr>"

text \<open>Three prices for the first zone, none for the second.\<close>

definition spot_entries :: "spot_price_entry list" where
  "spot_entries =
     [\<lparr>AvailabilityZone = Some ''us-east-1a'', SpotPrice = Some (FloatOk (5/100))\<rparr>,
      \<lparr>AvailabilityZone = Some ''us-east-1a'', SpotPrice = Some (FloatOk (3/100))\<rparr>,
      \<lparr>AvailabilityZone = Some ''us-east-1a'', SpotPrice = Some (FloatOk (4/100))\<rparr>]"

text \<open>The same with two prices for the second zone, the lower of them 0.\<close>

definition spot_entries_zero :: "spot_price_entry list" where
  "spot_entries_zero =
     spot_entries @
     [\<lparr>AvailabilityZone = Some ''us-east-1b'', SpotPrice = Some (FloatOk (2/100))\<rparr>,
      \<lparr>AvailabilityZone = Some ''us-east-1b'', SpotPrice = Some (FloatOk 0)\<rparr>]"

definition spot_answer_of :: "spot_price_entry list \<Rightarrow> aws_output completed" where
  "spot_answer_of entries = Completed (no_output\<lparr>SpotPriceHistory := entries\<rparr>)"

text \<open>A price list of one product with one term and one price dimension.\<close>

definition pricing_of :: "float_arg \<Rightarrow> aws_output completed" where
  "pricing_of usd =
     Completed (no_output\<lparr>PriceList :=
        [ProductData [\<lparr>priceDimensions = [\<lparr>pricePerUnit_USD = Some usd\<rparr>]\<rparr>]]\<rparr>)"

text \<open>
  A second world, with the sizes \<^verbatim>\<open>m5.large\<close> and \<^verbatim>\<open>m5.xlarge\<close>: the spot answer
  for \<^verbatim>\<open>m5.large\<close> holds a price that \<^verbatim>\<open>float\<close> rejects, everything about
  \<^verbatim>\<open>m5.xlarge\<close> is in order.
\<close>

definition m5_large :: instance_info where
  "m5_large = m5_xlarge\<lparr>InstanceType := ''m5.large''\<rparr>"

definition pair_env :: env where
  "pair_env =
     \<lparr>aws_cli = (\<lambda>command.
        if command = describe_instance_types_command ''us-east-1'' ''m5.large''
        then Completed (no_output\<lparr>InstanceTypes := [m5_large]\<rparr>)
        else if command = describe_spot_price_history_command ''us-east-1'' ''m5.large'' demo_time
        then spot_answer_of [\<lparr>AvailabilityZone = Some ''us-east-1a'', SpotPrice = Some FloatValueError\<rparr>]
        else aws_cli (demo_env [m5_xlarge] CalledProcessError (pricing_of (FloatOk (1/5)))) command),
      current_time = demo_time\<rparr>"

text \<open>
  A third world, in which the query for the details of \<^verbatim>\<open>m5.large\<close> fails while
  everything about \<^verbatim>\<open>m5.xlarge\<close> is in order.
\<close>

definition exit_env :: env where
  "exit_env =
     \<lparr>aws_cli = (\<lambda>command.
        if command = [''aws'', ''ec2'', ''describe-instance-types'', ''--region'', ''us-east-1'',
                      ''--filters'', ''Name=instance-type,Values=m5.*'']
        then Completed (no_output\<lparr>InstanceTypes := [m5_large, m5_xlarge]\<rparr>)
        else aws_cli (demo_env [m5_xlarge] CalledProcessError (pricing_of (FloatOk (1/5)))) command),
      current_time = demo_time\<rparr>"

text \<open>A region that knows the family \<^verbatim>\<open>g6\<close> in two sizes, and nothing else.\<close>

definition g6_env :: env where
  "g6_env =
     \<lparr>aws_cli = (\<lambda>command.
        if command = [''aws'', ''ec2'', ''describe-instance-types'', ''--region'', ''us-east-1'',
                      ''--filters'', ''Name=instance-type,Values=g6.*'']
        then Completed (no_output\<lparr>InstanceTypes :=
               [m5_xlarge\<lparr>InstanceType := ''g6.xlarge''\<rparr>,
                m5_xlarge\<lparr>InstanceType := ''g6.2xlarge''\<rparr>]\<rparr>)
        else CalledProcessError),
      current_time = demo_time\<rparr>"

section \<open>The built-ins\<close>

text \<open>
  The string that \<open>str_nat\<close> builds is the decimal numeral of its argument: read as
  digits, most significant first, it gives the number back.
\<close>

lemma digit_char_value:
  assumes "d < 10"
  shows "(of_char (digit_char d) :: nat) = 48 + d"
proof -
  from assms have "d = 0 \<or> d = 1 \<or> d = 2 \<or> d = 3 \<or> d = 4
      \<or> d = 5 \<or> d = 6 \<or> d = 7 \<or> d = 8 \<or> d = 9"
    by arith
  then show ?thesis by (elim disjE) (simp_all add: digit_char_def)
qed

lemma foldl_digits_snoc:
  "foldl (\<lambda>a c. 10 * a + (of_char c - 48)) (0::nat) (s @ [c])
     = 10 * foldl (\<lambda>a c. 10 * a + (of_char c - 48)) 0 s + (of_char c - 48)"
  by simp

lemma str_nat_decodes:
  "foldl (\<lambda>a c. 10 * a + (of_char c - 48)) (0::nat) (str_nat n) = n"
proof (induction n rule: str_nat.induct)
  case (1 n)
  show ?case
  proof (cases "n < 10")
    case True
    then have "str_nat n = [digit_char n]" by (simp add: str_nat.simps)
    with True show ?thesis by (simp add: digit_char_value)
  next
    case False
    then have unfold: "str_nat n = str_nat (n div 10) @ [digit_char (n mod 10)]"
      by (subst str_nat.simps) simp
    have "(of_char (digit_char (n mod 10)) :: nat) = 48 + n mod 10"
      by (rule digit_char_value) simp
    with 1 [OF False] show ?thesis
      by (simp only: unfold foldl_digits_snoc) simp
  qed
qed

section \<open>What a record is built from\<close>

lemma process_instance_type_SomeD:
  assumes "process_instance_type w region it azs = Inr (Some r)"
  shows "\<exists>d sp od. get_instance_details w region it = Inr (Some d)
           \<and> get_spot_prices w region it = Inr sp
           \<and> get_on_demand_price w region it = Inr od
           \<and> architecture r = architecture d
           \<and> operatingSystems r = operatingSystems d
           \<and> resources r = resources d
           \<and> name r = it
           \<and> offerings r = build_offerings sp od azs"
  using assms
  by (auto simp: process_instance_type_def split: sum.splits option.splits)

lemma get_instance_details_SomeD:
  assumes "get_instance_details w region it = Inr (Some d)"
    and "aws_cli w (describe_instance_types_command region it) = Completed result"
    and "InstanceTypes result = info # others"
  shows "details_of_info info = Inr d"
  using assms
  by (auto simp: get_instance_details_def run_aws_command_def split: sum.splits)

lemma process_details_of_info:
  assumes "process_instance_type w region it azs = Inr (Some r)"
    and "aws_cli w (describe_instance_types_command region it) = Completed result"
    and "InstanceTypes result = info # others"
  shows "\<exists>d. details_of_info info = Inr d
           \<and> architecture r = architecture d
           \<and> operatingSystems r = operatingSystems d
           \<and> resources r = resources d"
  using process_instance_type_SomeD [OF assms(1)] get_instance_details_SomeD [OF _ assms(2,3)]
  by metis

lemma process_instance_type_returns:
  assumes "get_instance_details w region it = Inr (Some d)"
    and "get_spot_prices w region it = Inr sp"
    and "get_on_demand_price w region it = Inr od"
  shows "process_instance_type w region it azs =
           Inr (Some \<lparr>architecture = architecture d,
                      operatingSystems = operatingSystems d,
                      resources = resources d,
                      name = it,
                      offerings = build_offerings sp od azs\<rparr>)"
  using assms by (simp add: process_instance_type_def)

subsection \<open>The example worlds, evaluated\<close>

lemma demo_cli:
  "aws_cli (demo_env infos s p) [''aws'', ''ec2'', ''describe-availability-zones'', ''--region'', ''us-east-1'']
     = Completed (no_output\<lparr>AvailabilityZones := map (\<lambda>z. \<lparr>ZoneName = z\<rparr>) demo_zones\<rparr>)"
  "aws_cli (demo_env infos s p) [''aws'', ''ec2'', ''describe-instance-types'', ''--region'', ''us-east-1'',
                                 ''--filters'', ''Name=instance-type,Values=m5.*'']
     = Completed (no_output\<lparr>InstanceTypes := infos\<rparr>)"
  "aws_cli (demo_env infos s p) (describe_instance_types_command ''us-east-1'' ''m5.xlarge'')
     = Completed (no_output\<lparr>InstanceTypes := infos\<rparr>)"
  "aws_cli (demo_env infos s p) (describe_spot_price_history_command ''us-east-1'' ''m5.xlarge'' demo_time) = s"
  "aws_cli (demo_env infos s p) (get_products_command ''us-east-1'' ''m5.xlarge'') = p"
  "current_time (demo_env infos s p) = demo_time"
  by (simp_all add: demo_env_def describe_instance_types_command_def
      describe_spot_price_history_command_def get_products_command_def region_mapping_def)

lemma no_output_fields:
  "InstanceTypes (no_output\<lparr>InstanceTypes := xs\<rparr>) = xs"
  "SpotPriceHistory (no_output\<lparr>SpotPriceHistory := es\<rparr>) = es"
  "PriceList (no_output\<lparr>PriceList := ps\<rparr>) = ps"
  "AvailabilityZones (no_output\<lparr>AvailabilityZones := zs\<rparr>) = zs"
  "InstanceTypes no_output = []"
  by (simp_all add: no_output_def)

lemma str_int_examples:
  "str_int 4 = ''4''" "str_int 40 = ''40''" "str_int 80 = ''80''"
  by (simp_all add: str_int_def str_nat.simps digit_char_def)

lemma lower_examples:
  "lower ''Linux/UNIX'' = ''linux/unix''" "lower ''Windows'' = ''windows''"
  by (simp_all add: lower_def lower_char_def)

lemma details_of_m5_xlarge: "details_of_info m5_xlarge = Inr m5_xlarge_details"
  by (simp add: details_of_info_def m5_xlarge_def m5_xlarge_details_def
      supported_architectures_def str_int_examples)

lemma demo_details:
  "get_instance_details (demo_env (info # others) s p) ''us-east-1'' ''m5.xlarge'' =
     (case details_of_info info of Inl e \<Rightarrow> Inl e | Inr d \<Rightarrow> Inr (Some d))"
  by (simp add: get_instance_details_def run_aws_command_def demo_cli no_output_fields)

lemma demo_spot:
  "get_spot_prices (demo_env infos (spot_answer_of entries) p) ''us-east-1'' ''m5.xlarge''
     = spot_price_loop entries Map.empty"
  "get_spot_prices (demo_env infos CalledProcessError p) ''us-east-1'' ''m5.xlarge'' = Inr Map.empty"
  by (simp_all add: get_spot_prices_def demo_cli spot_answer_of_def no_output_fields)

lemma demo_on_demand:
  "get_on_demand_price (demo_env infos s (pricing_of (FloatOk q))) ''us-east-1'' ''m5.xlarge'' = Inr (Some q)"
  "get_on_demand_price (demo_env infos s CalledProcessError) ''us-east-1'' ''m5.xlarge'' = Inr None"
  by (simp_all add: get_on_demand_price_def demo_cli pricing_of_def no_output_fields)

lemma demo_process:
  assumes "details_of_info info = Inr d"
    and "get_spot_prices (demo_env (info # others) s p) ''us-east-1'' ''m5.xlarge'' = Inr sp"
    and "get_on_demand_price (demo_env (info # others) s p) ''us-east-1'' ''m5.xlarge'' = Inr od"
  shows "process_instance_type (demo_env (info # others) s p) ''us-east-1'' ''m5.xlarge'' azs =
           Inr (Some \<lparr>architecture = architecture d,
                      operatingSystems = operatingSystems d,
                      resources = resources d,
                      name = ''m5.xlarge'',
                      offerings = build_offerings sp od azs\<rparr>)"
  by (rule process_instance_type_returns) (simp_all add: demo_details assms)

section \<open>Hardware details\<close>

text \<open>
  C5. When the first architecture the provider reports for an instance type is
  \<^verbatim>\<open>x86_64\<close>, the record says \<^verbatim>\<open>amd64\<close>; any other first token is passed on
  as it is.
\<close>

theorem architecture_x86_64_is_amd64:
  assumes "process_instance_type w region it azs = Inr (Some r)"
    and "aws_cli w (describe_instance_types_command region it) = Completed result"
    and "InstanceTypes result = info # others"
    and "ProcessorInfo info = Some p"
    and "SupportedArchitectures p = Some (a # archs)"
  shows "architecture r = (if a = ''x86_64'' then ''amd64'' else a)"
proof -
  from process_details_of_info [OF assms(1,2,3)] obtain d where
    d: "details_of_info info = Inr d" and r: "architecture r = architecture d"
    by blast
  from assms(4,5) have "supported_architectures info [''x86_64''] = a # archs"
    by (simp add: supported_architectures_def)
  with d have "architecture d = (if a = ''x86_64'' then ''amd64'' else a)"
    by (auto simp: details_of_info_def Let_def)
  with r show ?thesis by simp
qed

theorem architecture_x86_64_is_amd64_witness:
  "process_instance_type (demo_env [m5_xlarge] CalledProcessError CalledProcessError)
       ''us-east-1'' ''m5.xlarge'' demo_zones
     = Inr (Some \<lparr>architecture = ''amd64'', operatingSystems = [''linux''],
                  resources = resources m5_xlarge_details,
                  name = ''m5.xlarge'', offerings = []\<rparr>)
   \<and> ProcessorInfo m5_xlarge = Some \<lparr>SupportedArchitectures = Some [''x86_64'']\<rparr>
   \<and> architecture \<lparr>architecture = ''amd64'', operatingSystems = [''linux''],
                    resources = resources m5_xlarge_details,
                    name = ''m5.xlarge'', offerings = []\<rparr> = ''amd64''"
proof -
  let ?w = "demo_env [m5_xlarge] CalledProcessError CalledProcessError"
  let ?r = "\<lparr>architecture = ''amd64'', operatingSystems = [''linux''],
             resources = resources m5_xlarge_details,
             name = ''m5.xlarge'', offerings = []\<rparr>"
  have run: "process_instance_type ?w ''us-east-1'' ''m5.xlarge'' demo_zones = Inr (Some ?r)"
    by (simp add: demo_process [OF details_of_m5_xlarge demo_spot(2) demo_on_demand(2)]
        m5_xlarge_details_def build_offerings_def demo_zones_def)
  have cli: "aws_cli ?w (describe_instance_types_command ''us-east-1'' ''m5.xlarge'')
               = Completed (no_output\<lparr>InstanceTypes := [m5_xlarge]\<rparr>)"
    by (simp add: demo_cli)
  have first: "InstanceTypes (no_output\<lparr>InstanceTypes := [m5_xlarge]\<rparr>) = m5_xlarge # []"
    by (simp add: no_output_fields)
  have pi: "ProcessorInfo m5_xlarge = Some \<lparr>SupportedArchitectures = Some [''x86_64'']\<rparr>"
    by (simp add: m5_xlarge_def)
  have archs: "SupportedArchitectures \<lparr>SupportedArchitectures = Some [''x86_64'']\<rparr> = Some (''x86_64'' # [])"
    by simp
  from architecture_x86_64_is_amd64 [OF run cli first pi archs]
  have "architecture ?r = ''amd64''" by simp
  with run pi show ?thesis by simp
qed

text \<open>
  C6. The field \<^verbatim>\<open>pods\<close> of a record is the decimal rendering of ten times the
  maximum number of network interfaces, and of ten times 8 when the provider reports no
  such number: 4 interfaces give \<^verbatim>\<open>"40"\<close>, none gives \<^verbatim>\<open>"80"\<close>.
\<close>

theorem pods_is_ten_per_interface:
  assumes "process_instance_type w region it azs = Inr (Some r)"
    and "aws_cli w (describe_instance_types_command region it) = Completed result"
    and "InstanceTypes result = info # others"
  shows "(\<forall>n k. NetworkInfo info = Some n \<and> MaximumNetworkInterfaces n = Some k
            \<longrightarrow> pods (resources r) = str_int (k * 10))
       \<and> (\<forall>n. NetworkInfo info = Some n \<and> MaximumNetworkInterfaces n = Some 4
            \<longrightarrow> pods (resources r) = ''40'')
       \<and> (NetworkInfo info = None \<or> (\<exists>n. NetworkInfo info = Some n \<and> MaximumNetworkInterfaces n = None)
            \<longrightarrow> pods (resources r) = str_int (8 * 10) \<and> pods (resources r) = ''80'')"
proof -
  from process_details_of_info [OF assms(1,2,3)] obtain d where
    d: "details_of_info info = Inr d" and r: "resources r = resources d"
    by blast
  from d have "pods (resources d) =
      str_int ((case NetworkInfo info of None \<Rightarrow> 8
                | Some n \<Rightarrow> (case MaximumNetworkInterfaces n of None \<Rightarrow> 8 | Some k \<Rightarrow> k)) * 10)"
    by (auto simp: details_of_info_def Let_def split: list.splits)
  with r have pods: "pods (resources r) =
      str_int ((case NetworkInfo info of None \<Rightarrow> 8
                | Some n \<Rightarrow> (case MaximumNetworkInterfaces n of None \<Rightarrow> 8 | Some k \<Rightarrow> k)) * 10)"
    by simp
  have a: "\<forall>n k. NetworkInfo info = Some n \<and> MaximumNetworkInterfaces n = Some k
            \<longrightarrow> pods (resources r) = str_int (k * 10)"
    using pods by auto
  have b: "\<forall>n. NetworkInfo info = Some n \<and> MaximumNetworkInterfaces n = Some 4
            \<longrightarrow> pods (resources r) = ''40''"
    using pods by (auto simp: str_int_examples)
  have c: "NetworkInfo info = None \<or> (\<exists>n. NetworkInfo info = Some n \<and> MaximumNetworkInterfaces n = None)
            \<longrightarrow> pods (resources r) = str_int (8 * 10) \<and> pods (resources r) = ''80''"
    using pods by (auto simp: str_int_examples)
  from a b c show ?thesis by blast
qed

theorem pods_is_ten_per_interface_witness:
  "process_instance_type (demo_env [m5_xlarge] CalledProcessError CalledProcessError)
       ''us-east-1'' ''m5.xlarge'' demo_zones
     = Inr (Some \<lparr>architecture = ''amd64'', operatingSystems = [''linux''],
                  resources = resources m5_xlarge_details,
                  name = ''m5.xlarge'', offerings = []\<rparr>)
   \<and> NetworkInfo m5_xlarge = Some \<lparr>MaximumNetworkInterfaces = Some 4\<rparr>
   \<and> pods (resources m5_xlarge_details) = ''40''
   \<and> process_instance_type
         (demo_env [m5_xlarge\<lparr>NetworkInfo := None\<rparr>] CalledProcessError CalledProcessError)
         ''us-east-1'' ''m5.xlarge'' demo_zones
     = Inr (Some \<lparr>architecture = ''amd64'', operatingSystems = [''linux''],
                  resources = (resources m5_xlarge_details)\<lparr>pods := ''80''\<rparr>,
                  name = ''m5.xlarge'', offerings = []\<rparr>)"
proof -
  let ?w = "demo_env [m5_xlarge] CalledProcessError CalledProcessError"
  let ?r = "\<lparr>architecture = ''amd64'', operatingSystems = [''linux''],
             resources = resources m5_xlarge_details,
             name = ''m5.xlarge'', offerings = []\<rparr>"
  have run: "process_instance_type ?w ''us-east-1'' ''m5.xlarge'' demo_zones = Inr (Some ?r)"
    by (simp add: demo_process [OF details_of_m5_xlarge demo_spot(2) demo_on_demand(2)]
        m5_xlarge_details_def build_offerings_def demo_zones_def)
  have cli: "aws_cli ?w (describe_instance_types_command ''us-east-1'' ''m5.xlarge'')
               = Completed (no_output\<lparr>InstanceTypes := [m5_xlarge]\<rparr>)"
    by (simp add: demo_cli)
  have first: "InstanceTypes (no_output\<lparr>InstanceTypes := [m5_xlarge]\<rparr>) = m5_xlarge # []"
    by (simp add: no_output_fields)
  have ni: "NetworkInfo m5_xlarge = Some \<lparr>MaximumNetworkInterfaces = Some 4\<rparr>"
    by (simp add: m5_xlarge_def)
  from pods_is_ten_per_interface [OF run cli first]
  have "\<forall>n. NetworkInfo m5_xlarge = Some n \<and> MaximumNetworkInterfaces n = Some 4
            \<longrightarrow> pods (resources ?r) = ''40''"
    by blast
  with ni have forty: "pods (resources ?r) = ''40''" by simp
  let ?w' = "demo_env [m5_xlarge\<lparr>NetworkInfo := None\<rparr>] CalledProcessError CalledProcessError"
  let ?d' = "m5_xlarge_details\<lparr>resources := (resources m5_xlarge_details)\<lparr>pods := ''80''\<rparr>\<rparr>"
  have "details_of_info (m5_xlarge\<lparr>NetworkInfo := None\<rparr>) = Inr ?d'"
    by (simp add: details_of_info_def m5_xlarge_def m5_xlarge_details_def
        supported_architectures_def str_int_examples)
  then have "process_instance_type ?w' ''us-east-1'' ''m5.xlarge'' demo_zones =
      Inr (Some \<lparr>architecture = architecture ?d', operatingSystems = operatingSystems ?d',
                 resources = resources ?d', name = ''m5.xlarge'',
                 offerings = build_offerings Map.empty None demo_zones\<rparr>)"
    by (rule demo_process [OF _ demo_spot(2) demo_on_demand(2)])
  then have run': "process_instance_type ?w' ''us-east-1'' ''m5.xlarge'' demo_zones =
      Inr (Some \<lparr>architecture = ''amd64'', operatingSystems = [''linux''],
                 resources = (resources m5_xlarge_details)\<lparr>pods := ''80''\<rparr>,
                 name = ''m5.xlarge'', offerings = []\<rparr>)"
    by (simp add: m5_xlarge_details_def build_offerings_def demo_zones_def)
  from run ni forty run' show ?thesis by simp
qed

text \<open>
  C4, as the program has it. \<^verbatim>\<open>if instance_info.get("SupportedPlatforms")\<close> is false
  for an absent list and for an empty one: in both cases the record gets
  \<^verbatim>\<open>["linux"]\<close>, with \<^verbatim>\<open>"windows"\<close> appended exactly when the hypervisor type is
  not \<^verbatim>\<open>nitro\<close> or the list of supported architectures contains \<^verbatim>\<open>windows\<close>. A
  list with at least one platform is copied with every element in lower case.
\<close>

theorem operating_systems_default_or_lowered:
  assumes "process_instance_type w region it azs = Inr (Some r)"
    and "aws_cli w (describe_instance_types_command region it) = Completed result"
    and "InstanceTypes result = info # others"
  shows "(SupportedPlatforms info = None \<or> SupportedPlatforms info = Some []
            \<longrightarrow> operatingSystems r =
                 (if HypervisorType info \<noteq> Some ''nitro''
                     \<or> (\<exists>p archs. ProcessorInfo info = Some p
                            \<and> SupportedArchitectures p = Some archs \<and> ''windows'' \<in> set archs)
                  then [''linux'', ''windows''] else [''linux'']))
       \<and> (\<forall>ps. SupportedPlatforms info = Some ps \<and> ps \<noteq> []
            \<longrightarrow> operatingSystems r = map lower ps)"
proof -
  from process_details_of_info [OF assms(1,2,3)] obtain d where
    d: "details_of_info info = Inr d" and r: "operatingSystems r = operatingSystems d"
    by blast
  have w: "''windows'' \<in> set (supported_architectures info []) \<longleftrightarrow>
        (\<exists>p archs. ProcessorInfo info = Some p
            \<and> SupportedArchitectures p = Some archs \<and> ''windows'' \<in> set archs)"
  proof (cases "ProcessorInfo info")
    case None
    then show ?thesis by (simp add: supported_architectures_def)
  next
    case (Some p)
    then show ?thesis
      by (cases "SupportedArchitectures p") (simp_all add: supported_architectures_def)
  qed
  from d have "operatingSystems d =
      (case SupportedPlatforms info of
         Some (p # ps) \<Rightarrow> map lower (p # ps)
       | _ \<Rightarrow> (if HypervisorType info \<noteq> Some ''nitro''
                  \<or> ''windows'' \<in> set (supported_architectures info [])
               then [''linux''] @ [''windows''] else [''linux'']))"
    by (auto simp: details_of_info_def Let_def split: list.splits)
  with r w show ?thesis
    by (auto split: option.splits list.splits)
qed

text \<open>
  A type on the \<^verbatim>\<open>xen\<close> hypervisor without platform list gets both systems; a
  reported list is put in lower case.
\<close>

theorem operating_systems_default_or_lowered_witness:
  "map_sum id (map_option operatingSystems)
     (process_instance_type
        (demo_env [m5_xlarge\<lparr>HypervisorType := Some ''xen''\<rparr>] CalledProcessError CalledProcessError)
        ''us-east-1'' ''m5.xlarge'' demo_zones)
     = Inr (Some [''linux'', ''windows''])
   \<and> map_sum id (map_option operatingSystems)
     (process_instance_type
        (demo_env [m5_xlarge\<lparr>SupportedPlatforms := Some [''Linux/UNIX'', ''Windows'']\<rparr>]
           CalledProcessError CalledProcessError)
        ''us-east-1'' ''m5.xlarge'' demo_zones)
     = Inr (Some [''linux/unix'', ''windows''])"
proof -
  let ?i1 = "m5_xlarge\<lparr>HypervisorType := Some ''xen''\<rparr>"
  let ?w1 = "demo_env [?i1] CalledProcessError CalledProcessError"
  obtain d1 where d1: "details_of_info ?i1 = Inr d1"
    by (simp add: details_of_info_def m5_xlarge_def supported_architectures_def)
  have run1: "process_instance_type ?w1 ''us-east-1'' ''m5.xlarge'' demo_zones =
      Inr (Some \<lparr>architecture = architecture d1, operatingSystems = operatingSystems d1,
                 resources = resources d1, name = ''m5.xlarge'',
                 offerings = build_offerings Map.empty None demo_zones\<rparr>)"
    by (rule demo_process [OF d1 demo_spot(2) demo_on_demand(2)])
  have cli1: "aws_cli ?w1 (describe_instance_types_command ''us-east-1'' ''m5.xlarge'')
               = Completed (no_output\<lparr>InstanceTypes := [?i1]\<rparr>)"
    by (simp add: demo_cli)
  have first1: "InstanceTypes (no_output\<lparr>InstanceTypes := [?i1]\<rparr>) = ?i1 # []"
    by (simp add: no_output_fields)
  from operating_systems_default_or_lowered [OF run1 cli1 first1]
  have os1: "operatingSystems d1 = [''linux'', ''windows'']"
    by (simp add: m5_xlarge_def)
  let ?i2 = "m5_xlarge\<lparr>SupportedPlatforms := Some [''Linux/UNIX'', ''Windows'']\<rparr>"
  let ?w2 = "demo_env [?i2] CalledProcessError CalledProcessError"
  obtain d2 where d2: "details_of_info ?i2 = Inr d2"
    by (simp add: details_of_info_def m5_xlarge_def supported_architectures_def)
  have run2: "process_instance_type ?w2 ''us-east-1'' ''m5.xlarge'' demo_zones =
      Inr (Some \<lparr>architecture = architecture d2, operatingSystems = operatingSystems d2,
                 resources = resources d2, name = ''m5.xlarge'',
                 offerings = build_offerings Map.empty None demo_zones\<rparr>)"
    by (rule demo_process [OF d2 demo_spot(2) demo_on_demand(2)])
  have cli2: "aws_cli ?w2 (describe_instance_types_command ''us-east-1'' ''m5.xlarge'')
               = Completed (no_output\<lparr>InstanceTypes := [?i2]\<rparr>)"
    by (simp add: demo_cli)
  have first2: "InstanceTypes (no_output\<lparr>InstanceTypes := [?i2]\<rparr>) = ?i2 # []"
    by (simp add: no_output_fields)
  from operating_systems_default_or_lowered [OF run2 cli2 first2]
  have os2: "operatingSystems d2 = [''linux/unix'', ''windows'']"
    by (simp add: m5_xlarge_def lower_examples)
  from run1 os1 run2 os2 show ?thesis by simp
qed

text \<open>
  The sentence of C4 about a reported list, read for the empty list, asks for no
  operating system at all. The program answers \<^verbatim>\<open>["linux"]\<close>.
\<close>

theorem operating_systems_empty_platforms_counterexample:
  "SupportedPlatforms (m5_xlarge\<lparr>SupportedPlatforms := Some []\<rparr>) = Some []
   \<and> map_sum id (map_option operatingSystems)
       (process_instance_type
          (demo_env [m5_xlarge\<lparr>SupportedPlatforms := Some []\<rparr>] CalledProcessError CalledProcessError)
          ''us-east-1'' ''m5.xlarge'' demo_zones)
     = Inr (Some [''linux''])
   \<and> [''linux''] \<noteq> map lower []"
proof -
  let ?i = "m5_xlarge\<lparr>SupportedPlatforms := Some []\<rparr>"
  have "details_of_info ?i = Inr m5_xlarge_details"
    by (simp add: details_of_info_def m5_xlarge_def m5_xlarge_details_def
        supported_architectures_def str_int_examples)
  then have "process_instance_type (demo_env [?i] CalledProcessError CalledProcessError)
        ''us-east-1'' ''m5.xlarge'' demo_zones =
      Inr (Some \<lparr>architecture = architecture m5_xlarge_details,
                 operatingSystems = operatingSystems m5_xlarge_details,
                 resources = resources m5_xlarge_details, name = ''m5.xlarge'',
                 offerings = build_offerings Map.empty None demo_zones\<rparr>)"
    by (rule demo_process [OF _ demo_spot(2) demo_on_demand(2)])
  then show ?thesis by (simp add: m5_xlarge_details_def)
qed

section \<open>Offerings\<close>

lemma spot_offering_flags [simp]:
  "is_spot (spot_offering info az)" "\<not> is_on_demand (spot_offering info az)"
  "in_zone z (spot_offering info az) \<longleftrightarrow> z = az"
  by (auto simp: is_spot_def is_on_demand_def in_zone_def spot_offering_def
      capacity_type_req_def zone_req_def)

lemma on_demand_offering_flags [simp]:
  "is_on_demand (on_demand_offering p az)" "\<not> is_spot (on_demand_offering p az)"
  "in_zone z (on_demand_offering p az) \<longleftrightarrow> z = az"
  by (auto simp: is_spot_def is_on_demand_def in_zone_def on_demand_offering_def
      capacity_type_req_def zone_req_def)

lemma spot_offerings_loop_eq:
  "spot_offerings_loop m azs offs = offs @ concat (map (spot_offering_for m) azs)"
  by (induction azs arbitrary: offs) (auto simp: spot_offering_for_def split: option.splits)

lemma on_demand_offerings_loop_eq:
  "on_demand_offerings_loop p azs offs = offs @ map (on_demand_offering p) azs"
  by (induction azs arbitrary: offs) auto

lemma build_offerings_eq:
  "build_offerings m od azs =
     concat (map (spot_offering_for m) azs)
     @ (case od of None \<Rightarrow> [] | Some p \<Rightarrow> if p \<noteq> 0 then map (on_demand_offering p) azs else [])"
  by (simp add: build_offerings_def spot_offerings_loop_eq on_demand_offerings_loop_eq
      split: option.splits)

lemma filter_spot_part [simp]:
  "filter is_on_demand (concat (map (spot_offering_for m) azs)) = []"
  "filter is_spot (concat (map (spot_offering_for m) azs)) = concat (map (spot_offering_for m) azs)"
  by (induction azs) (auto simp: spot_offering_for_def split: option.splits)

lemma filter_on_demand_part [simp]:
  "filter is_spot (map (on_demand_offering p) azs) = []"
  "filter is_on_demand (map (on_demand_offering p) azs) = map (on_demand_offering p) azs"
  by (induction azs) auto

lemma filter_zone_spot_part:
  "filter (in_zone z) (concat (map (spot_offering_for m) azs))
     = concat (replicate (count_list azs z) (spot_offering_for m z))"
  by (induction azs) (auto simp: spot_offering_for_def split: option.splits)

lemma count_list_distinct: "distinct xs \<Longrightarrow> x \<in> set xs \<Longrightarrow> count_list xs x = 1"
  by (induction xs) auto

lemma filter_on_demand_offerings:
  "filter is_on_demand (build_offerings m od azs) =
     (case od of None \<Rightarrow> [] | Some p \<Rightarrow> if p \<noteq> 0 then map (on_demand_offering p) azs else [])"
  by (simp add: build_offerings_eq split: option.splits)

lemma filter_spot_offerings:
  "filter is_spot (build_offerings m od azs) = concat (map (spot_offering_for m) azs)"
  by (simp add: build_offerings_eq split: option.splits)

lemma filter_spot_zone_offerings:
  "filter (\<lambda>off. is_spot off \<and> in_zone z off) (build_offerings m od azs) =
     concat (replicate (count_list azs z) (spot_offering_for m z))"
proof -
  have "filter (\<lambda>off. is_spot off \<and> in_zone z off) (build_offerings m od azs)
        = filter (in_zone z) (filter is_spot (build_offerings m od azs))"
    by (simp add: conj_commute)
  then show ?thesis by (simp add: filter_spot_offerings filter_zone_spot_part)
qed

lemma offerings_price_nonzero:
  assumes "off \<in> set (build_offerings m od azs)"
  shows "Price off \<noteq> 0"
  using assms
  by (auto simp: build_offerings_eq spot_offering_for_def spot_offering_def on_demand_offering_def
      split: option.splits if_splits)

lemma Min_insert_absorb:
  fixes a :: rat
  assumes "finite S" and "b \<in> S" and "b \<le> a"
  shows "Min (insert a S) = Min S"
proof -
  from assms(2) have ne: "S \<noteq> {}" by auto
  have "Min S \<le> b" using assms(1,2) by (rule Min_le)
  with assms(3) have "Min S \<le> a" by simp
  moreover have "Min (insert a S) = min a (Min S)" using assms(1) ne by (rule Min_insert)
  ultimately show ?thesis by (simp add: min_def)
qed

text \<open>The loop over the price history keeps, for every key, the least price met so far.\<close>

lemma spot_price_loop_min:
  assumes "spot_price_loop es m = Inr m'"
    and "\<forall>k i. m k = Some i \<longrightarrow> available i"
  shows "m' k =
     (case m k of
        None \<Rightarrow> (if observed_prices k es = [] then None
                 else Some \<lparr>price = Min (set (observed_prices k es)), available = True\<rparr>)
      | Some old \<Rightarrow> Some \<lparr>price = Min (insert (price old) (set (observed_prices k es))),
                          available = True\<rparr>)"
  using assms
proof (induction es arbitrary: m)
  case Nil
  then show ?case by (auto simp: observed_prices_def split: option.splits)
next
  case (Cons e es)
  from Cons.prems(1) obtain p where p: "py_float (SpotPrice e) = Inr p"
    by (cases "py_float (SpotPrice e)") (auto simp: Let_def)
  define az where "az = AvailabilityZone e"
  define m1 where "m1 = (if (case m az of None \<Rightarrow> True | Some old \<Rightarrow> p < price old)
                          then m(az \<mapsto> \<lparr>price = p, available = True\<rparr>) else m)"
  from Cons.prems(1) p have run: "spot_price_loop es m1 = Inr m'"
    by (auto simp: Let_def m1_def az_def split: if_splits)
  have av: "\<forall>k i. m1 k = Some i \<longrightarrow> available i"
    using Cons.prems(2) by (auto simp: m1_def split: if_splits)
  note IH = Cons.IH [OF run av]
  have obs: "observed_prices k (e # es) = (if k = az then p # observed_prices k es else observed_prices k es)"
    using p by (auto simp: observed_prices_def az_def)
  show ?case
  proof (cases "k = az")
    case False
    then have "m1 k = m k" by (simp add: m1_def)
    moreover from obs False have "observed_prices k (e # es) = observed_prices k es" by simp
    ultimately show ?thesis using IH by metis
  next
    case True
    show ?thesis
    proof (cases "m az")
      case None
      then have "m1 k = Some \<lparr>price = p, available = True\<rparr>" using True by (simp add: m1_def)
      moreover from obs True have "observed_prices k (e # es) = p # observed_prices k es" by simp
      ultimately show ?thesis using IH True None by simp
    next
      case (Some old)
      show ?thesis
      proof (cases "p < price old")
        case lt: True
        then have "m1 k = Some \<lparr>price = p, available = True\<rparr>" using True Some by (simp add: m1_def)
        moreover have "Min (insert (price old) (insert p (set (observed_prices k es))))
                     = Min (insert p (set (observed_prices k es)))"
          using lt by (intro Min_insert_absorb [where b = p]) simp_all
        moreover from obs True have "observed_prices k (e # es) = p # observed_prices k es" by simp
        ultimately show ?thesis using IH True Some by simp
      next
        case ge: False
        then have "m1 k = Some old" using True Some by (simp add: m1_def)
        moreover have "Min (insert p (insert (price old) (set (observed_prices k es))))
                     = Min (insert (price old) (set (observed_prices k es)))"
          using ge by (intro Min_insert_absorb [where b = "price old"]) simp_all
        then have "Min (insert (price old) (insert p (set (observed_prices k es))))
                     = Min (insert (price old) (set (observed_prices k es)))"
          by (simp add: insert_commute)
        moreover from obs True have "observed_prices k (e # es) = p # observed_prices k es" by simp
        ultimately show ?thesis using IH True Some by simp
      qed
    qed
  qed
qed

lemma spot_price_loop_empty:
  assumes "spot_price_loop es Map.empty = Inr m'"
  shows "m' k = (if observed_prices k es = [] then None
                 else Some \<lparr>price = Min (set (observed_prices k es)), available = True\<rparr>)"
  using spot_price_loop_min [OF assms, of k] by simp

lemma get_spot_prices_completed:
  assumes "aws_cli w (describe_spot_price_history_command region it (current_time w)) = Completed spot_data"
    and "get_spot_prices w region it = Inr sp"
  shows "sp k = (if observed_prices k (SpotPriceHistory spot_data) = [] then None
                 else Some \<lparr>price = Min (set (observed_prices k (SpotPriceHistory spot_data))),
                            available = True\<rparr>)"
proof -
  from assms have "spot_price_loop (SpotPriceHistory spot_data) Map.empty = Inr sp"
    by (simp add: get_spot_prices_def)
  then show ?thesis by (rule spot_price_loop_empty)
qed

lemma get_spot_prices_failed:
  assumes "aws_cli w (describe_spot_price_history_command region it (current_time w)) = CalledProcessError
         \<or> aws_cli w (describe_spot_price_history_command region it (current_time w)) = JSONDecodeError"
  shows "get_spot_prices w region it = Inr Map.empty"
  using assms by (auto simp: get_spot_prices_def)

lemma demo_spot_entries:
  "spot_price_loop spot_entries Map.empty
     = Inr [Some ''us-east-1a'' \<mapsto> \<lparr>price = 3/100, available = True\<rparr>]"
  "spot_price_loop spot_entries_zero Map.empty
     = Inr [Some ''us-east-1a'' \<mapsto> \<lparr>price = 3/100, available = True\<rparr>,
            Some ''us-east-1b'' \<mapsto> \<lparr>price = 0, available = True\<rparr>]"
  by (simp_all add: spot_entries_zero_def spot_entries_def)

lemma demo_observed_prices:
  "observed_prices (Some ''us-east-1a'') spot_entries = [5/100, 3/100, 4/100]"
  "observed_prices (Some ''us-east-1b'') spot_entries_zero = [2/100, 0]"
  by (simp_all add: observed_prices_def spot_entries_zero_def spot_entries_def)

lemma demo_offerings:
  "build_offerings [Some ''us-east-1a'' \<mapsto> \<lparr>price = 3/100, available = True\<rparr>] None demo_zones
     = [spot_offering \<lparr>price = 3/100, available = True\<rparr> ''us-east-1a'']"
  "build_offerings [Some ''us-east-1a'' \<mapsto> \<lparr>price = 3/100, available = True\<rparr>,
                    Some ''us-east-1b'' \<mapsto> \<lparr>price = 0, available = True\<rparr>] od demo_zones
     = spot_offering \<lparr>price = 3/100, available = True\<rparr> ''us-east-1a''
       # (case od of None \<Rightarrow> []
          | Some p \<Rightarrow> if p \<noteq> 0 then map (on_demand_offering p) demo_zones else [])"
  "build_offerings Map.empty (Some (1/5)) demo_zones
     = [on_demand_offering (1/5) ''us-east-1a'', on_demand_offering (1/5) ''us-east-1b'']"
  "build_offerings Map.empty (Some 0) demo_zones = []"
  "build_offerings Map.empty None demo_zones = []"
  by (simp_all add: build_offerings_eq spot_offering_for_def demo_zones_def split: option.splits)

text \<open>
  C1, as the program has it. Take a record and a zone of the zone list, the list without
  repetition. When the spot query reported prices for the zone and the least of them is
  not 0, the record holds exactly one spot offering for the zone, at that least price and
  available. When the query reported no price for the zone, or the least one is 0, the
  record holds no spot offering for the zone.
\<close>

theorem spot_offering_per_zone:
  assumes "aws_cli w (describe_spot_price_history_command region it (current_time w)) = Completed spot_data"
    and "process_instance_type w region it azs = Inr (Some r)"
  shows "(z \<in> set azs \<and> distinct azs
            \<and> observed_prices (Some z) (SpotPriceHistory spot_data) \<noteq> []
            \<and> Min (set (observed_prices (Some z) (SpotPriceHistory spot_data))) \<noteq> 0
          \<longrightarrow> filter (\<lambda>off. is_spot off \<and> in_zone z off) (offerings r) =
                [\<lparr>Price = Min (set (observed_prices (Some z) (SpotPriceHistory spot_data))),
                  Available = True,
                  Requirements = [capacity_type_req ''spot'', zone_req z]\<rparr>])
       \<and> (observed_prices (Some z) (SpotPriceHistory spot_data) = []
            \<or> Min (set (observed_prices (Some z) (SpotPriceHistory spot_data))) = 0
          \<longrightarrow> filter (\<lambda>off. is_spot off \<and> in_zone z off) (offerings r) = [])"
proof -
  let ?ps = "observed_prices (Some z) (SpotPriceHistory spot_data)"
  from process_instance_type_SomeD [OF assms(2)] obtain sp od where
    sp: "get_spot_prices w region it = Inr sp" and offs: "offerings r = build_offerings sp od azs"
    by blast
  have at_z: "sp (Some z) = (if ?ps = [] then None
                             else Some \<lparr>price = Min (set ?ps), available = True\<rparr>)"
    using assms(1) sp by (rule get_spot_prices_completed)
  have filt: "filter (\<lambda>off. is_spot off \<and> in_zone z off) (offerings r) =
                concat (replicate (count_list azs z) (spot_offering_for sp z))"
    by (simp add: offs filter_spot_zone_offerings)
  have one: "z \<in> set azs \<and> distinct azs \<and> ?ps \<noteq> [] \<and> Min (set ?ps) \<noteq> 0
          \<longrightarrow> filter (\<lambda>off. is_spot off \<and> in_zone z off) (offerings r) =
                [\<lparr>Price = Min (set ?ps), Available = True,
                  Requirements = [capacity_type_req ''spot'', zone_req z]\<rparr>]"
  proof
    assume h: "z \<in> set azs \<and> distinct azs \<and> ?ps \<noteq> [] \<and> Min (set ?ps) \<noteq> 0"
    then have "count_list azs z = 1" by (simp add: count_list_distinct)
    moreover from h at_z have "spot_offering_for sp z =
        [\<lparr>Price = Min (set ?ps), Available = True,
          Requirements = [capacity_type_req ''spot'', zone_req z]\<rparr>]"
      by (simp add: spot_offering_for_def spot_offering_def capacity_type_req_def zone_req_def)
    ultimately show "filter (\<lambda>off. is_spot off \<and> in_zone z off) (offerings r) =
                [\<lparr>Price = Min (set ?ps), Available = True,
                  Requirements = [capacity_type_req ''spot'', zone_req z]\<rparr>]"
      using filt by simp
  qed
  have none: "?ps = [] \<or> Min (set ?ps) = 0
          \<longrightarrow> filter (\<lambda>off. is_spot off \<and> in_zone z off) (offerings r) = []"
  proof
    assume "?ps = [] \<or> Min (set ?ps) = 0"
    with at_z have "spot_offering_for sp z = []"
      by (auto simp: spot_offering_for_def)
    with filt show "filter (\<lambda>off. is_spot off \<and> in_zone z off) (offerings r) = []"
      by simp
  qed
  from one none show ?thesis by blast
qed

text \<open>
  Three prices for the first zone, the least of them 0.03: one spot offering at 0.03.
\<close>

theorem spot_offering_per_zone_witness:
  "aws_cli (demo_env [m5_xlarge] (spot_answer_of spot_entries) CalledProcessError)
       (describe_spot_price_history_command ''us-east-1'' ''m5.xlarge''
          (current_time (demo_env [m5_xlarge] (spot_answer_of spot_entries) CalledProcessError)))
     = Completed (no_output\<lparr>SpotPriceHistory := spot_entries\<rparr>)
   \<and> map_sum id (map_option offerings)
       (process_instance_type (demo_env [m5_xlarge] (spot_answer_of spot_entries) CalledProcessError)
          ''us-east-1'' ''m5.xlarge'' demo_zones)
     = Inr (Some [spot_offering \<lparr>price = 3/100, available = True\<rparr> ''us-east-1a''])
   \<and> observed_prices (Some ''us-east-1a'') spot_entries = [5/100, 3/100, 4/100]
   \<and> filter (\<lambda>off. is_spot off \<and> in_zone ''us-east-1a'' off)
        [spot_offering \<lparr>price = 3/100, available = True\<rparr> ''us-east-1a'']
     = [\<lparr>Price = 3/100, Available = True,
         Requirements = [capacity_type_req ''spot'', zone_req ''us-east-1a'']\<rparr>]"
proof -
  let ?w = "demo_env [m5_xlarge] (spot_answer_of spot_entries) CalledProcessError"
  let ?offs = "[spot_offering \<lparr>price = 3/100, available = True\<rparr> ''us-east-1a'']"
  let ?r = "\<lparr>architecture = architecture m5_xlarge_details,
             operatingSystems = operatingSystems m5_xlarge_details,
             resources = resources m5_xlarge_details,
             name = ''m5.xlarge'',
             offerings = build_offerings [Some ''us-east-1a'' \<mapsto> \<lparr>price = 3/100, available = True\<rparr>]
                           None demo_zones\<rparr>"
  have cli: "aws_cli ?w (describe_spot_price_history_command ''us-east-1'' ''m5.xlarge'' (current_time ?w))
               = Completed (no_output\<lparr>SpotPriceHistory := spot_entries\<rparr>)"
    by (simp add: demo_cli spot_answer_of_def)
  have sp: "get_spot_prices ?w ''us-east-1'' ''m5.xlarge''
              = Inr [Some ''us-east-1a'' \<mapsto> \<lparr>price = 3/100, available = True\<rparr>]"
    by (simp only: demo_spot demo_spot_entries)
  have run: "process_instance_type ?w ''us-east-1'' ''m5.xlarge'' demo_zones = Inr (Some ?r)"
    by (rule demo_process [OF details_of_m5_xlarge sp demo_on_demand(2)])
  have obs: "observed_prices (Some ''us-east-1a'') spot_entries = [5/100, 3/100, 4/100]"
    by (rule demo_observed_prices)
  have zs: "''us-east-1a'' \<in> set demo_zones \<and> distinct demo_zones"
    by (simp add: demo_zones_def)
  from spot_offering_per_zone [OF cli run, of "''us-east-1a''"] zs obs
  have "filter (\<lambda>off. is_spot off \<and> in_zone ''us-east-1a'' off) (offerings ?r)
     = [\<lparr>Price = 3/100, Available = True,
         Requirements = [capacity_type_req ''spot'', zone_req ''us-east-1a'']\<rparr>]"
    by (simp add: no_output_fields)
  then have "filter (\<lambda>off. is_spot off \<and> in_zone ''us-east-1a'' off) ?offs
     = [\<lparr>Price = 3/100, Available = True,
         Requirements = [capacity_type_req ''spot'', zone_req ''us-east-1a'']\<rparr>]"
    by (simp only: demo_offerings instance_type_record.simps)
  moreover have "map_sum id (map_option offerings)
       (process_instance_type ?w ''us-east-1'' ''m5.xlarge'' demo_zones) = Inr (Some ?offs)"
    by (simp add: run demo_offerings)
  ultimately show ?thesis using cli obs by blast
qed

text \<open>
  C1 as it is written promises a spot offering for every zone with a price entry. Here
  the second zone has two entries, the lower at 0, and the record has no offering for it.
\<close>

theorem spot_offering_zero_price_counterexample:
  "observed_prices (Some ''us-east-1b'') spot_entries_zero = [2/100, 0]
   \<and> ''us-east-1b'' \<in> set demo_zones
   \<and> map_sum id (map_option offerings)
       (process_instance_type (demo_env [m5_xlarge] (spot_answer_of spot_entries_zero) CalledProcessError)
          ''us-east-1'' ''m5.xlarge'' demo_zones)
     = Inr (Some [spot_offering \<lparr>price = 3/100, available = True\<rparr> ''us-east-1a''])
   \<and> filter (in_zone ''us-east-1b'') [spot_offering \<lparr>price = 3/100, available = True\<rparr> ''us-east-1a''] = []"
proof -
  let ?w = "demo_env [m5_xlarge] (spot_answer_of spot_entries_zero) CalledProcessError"
  have sp: "get_spot_prices ?w ''us-east-1'' ''m5.xlarge''
              = Inr [Some ''us-east-1a'' \<mapsto> \<lparr>price = 3/100, available = True\<rparr>,
                     Some ''us-east-1b'' \<mapsto> \<lparr>price = 0, available = True\<rparr>]"
    by (simp only: demo_spot demo_spot_entries)
  have "map_sum id (map_option offerings)
       (process_instance_type ?w ''us-east-1'' ''m5.xlarge'' demo_zones)
     = Inr (Some [spot_offering \<lparr>price = 3/100, available = True\<rparr> ''us-east-1a''])"
    by (simp add: demo_process [OF details_of_m5_xlarge sp demo_on_demand(2)] demo_offerings)
  then show ?thesis
    by (simp add: demo_observed_prices demo_zones_def)
qed

text \<open>
  C2, as the program has it. When the on-demand lookup found a price that is not 0, the
  on-demand offerings of the record are one per zone of the zone list, in its order,
  each at that price and available. When it found no price, or the price 0, the record
  holds no on-demand offering.
\<close>

theorem on_demand_offering_per_zone:
  assumes "process_instance_type w region it azs = Inr (Some r)"
    and "get_on_demand_price w region it = Inr od"
  shows "(\<forall>p. od = Some p \<and> p \<noteq> 0
            \<longrightarrow> filter is_on_demand (offerings r) =
                  map (\<lambda>az. \<lparr>Price = p, Available = True,
                              Requirements = [capacity_type_req ''on-demand'', zone_req az]\<rparr>) azs)
       \<and> (od = None \<or> od = Some 0 \<longrightarrow> filter is_on_demand (offerings r) = [])"
proof -
  from process_instance_type_SomeD [OF assms(1)] assms(2) obtain sp where
    offs: "offerings r = build_offerings sp od azs"
    by auto
  have shape: "on_demand_offering p =
      (\<lambda>az. \<lparr>Price = p, Available = True,
               Requirements = [capacity_type_req ''on-demand'', zone_req az]\<rparr>)" for p
    by (rule ext) (simp add: on_demand_offering_def capacity_type_req_def zone_req_def)
  have found: "\<forall>p. od = Some p \<and> p \<noteq> 0
            \<longrightarrow> filter is_on_demand (offerings r) =
                  map (\<lambda>az. \<lparr>Price = p, Available = True,
                              Requirements = [capacity_type_req ''on-demand'', zone_req az]\<rparr>) azs"
    by (simp add: offs filter_on_demand_offerings shape)
  have absent: "od = None \<or> od = Some 0 \<longrightarrow> filter is_on_demand (offerings r) = []"
    by (auto simp: offs filter_on_demand_offerings)
  from found absent show ?thesis by blast
qed

theorem on_demand_offering_per_zone_witness:
  "get_on_demand_price (demo_env [m5_xlarge] CalledProcessError (pricing_of (FloatOk (1/5))))
       ''us-east-1'' ''m5.xlarge'' = Inr (Some (1/5))
   \<and> map_sum id (map_option offerings)
       (process_instance_type (demo_env [m5_xlarge] CalledProcessError (pricing_of (FloatOk (1/5))))
          ''us-east-1'' ''m5.xlarge'' demo_zones)
     = Inr (Some [on_demand_offering (1/5) ''us-east-1a'',
                  on_demand_offering (1/5) ''us-east-1b''])
   \<and> filter is_on_demand [on_demand_offering (1/5) ''us-east-1a'',
                           on_demand_offering (1/5) ''us-east-1b'']
     = [\<lparr>Price = 1/5, Available = True,
         Requirements = [capacity_type_req ''on-demand'', zone_req ''us-east-1a'']\<rparr>,
        \<lparr>Price = 1/5, Available = True,
         Requirements = [capacity_type_req ''on-demand'', zone_req ''us-east-1b'']\<rparr>]"
proof -
  let ?w = "demo_env [m5_xlarge] CalledProcessError (pricing_of (FloatOk (1/5)))"
  let ?offs = "[on_demand_offering (1/5) ''us-east-1a'',
                on_demand_offering (1/5) ''us-east-1b'']"
  let ?r = "\<lparr>architecture = architecture m5_xlarge_details,
             operatingSystems = operatingSystems m5_xlarge_details,
             resources = resources m5_xlarge_details,
             name = ''m5.xlarge'',
             offerings = build_offerings Map.empty (Some (1/5)) demo_zones\<rparr>"
  have od: "get_on_demand_price ?w ''us-east-1'' ''m5.xlarge'' = Inr (Some (1/5))"
    by (rule demo_on_demand)
  have run: "process_instance_type ?w ''us-east-1'' ''m5.xlarge'' demo_zones = Inr (Some ?r)"
    by (rule demo_process [OF details_of_m5_xlarge demo_spot(2) od])
  have offs: "offerings ?r = ?offs"
    by (simp only: demo_offerings instance_type_record.simps)
  have nz: "(1/5 :: rat) \<noteq> 0" by simp
  from on_demand_offering_per_zone [OF run od] nz
  have "filter is_on_demand (offerings ?r) =
      map (\<lambda>az. \<lparr>Price = 1/5, Available = True,
                  Requirements = [capacity_type_req ''on-demand'', zone_req az]\<rparr>) demo_zones"
    by blast
  then have "filter is_on_demand ?offs =
      map (\<lambda>az. \<lparr>Price = 1/5, Available = True,
                  Requirements = [capacity_type_req ''on-demand'', zone_req az]\<rparr>) demo_zones"
    by (simp only: offs)
  then have "filter is_on_demand ?offs
     = [\<lparr>Price = 1/5, Available = True,
         Requirements = [capacity_type_req ''on-demand'', zone_req ''us-east-1a'']\<rparr>,
        \<lparr>Price = 1/5, Available = True,
         Requirements = [capacity_type_req ''on-demand'', zone_req ''us-east-1b'']\<rparr>]"
    by (simp only: demo_zones_def list.map)
  moreover have "map_sum id (map_option offerings)
       (process_instance_type ?w ''us-east-1'' ''m5.xlarge'' demo_zones) = Inr (Some ?offs)"
    by (simp only: run offs map_sum.simps option.map id_apply)
  ultimately show ?thesis using od by blast
qed

text \<open>
  C2 as it is written promises on-demand offerings whenever a price is found. Here the
  price list holds the price 0, the lookup returns it, and the record has no offering.
\<close>

theorem on_demand_zero_price_counterexample:
  "get_on_demand_price (demo_env [m5_xlarge] CalledProcessError (pricing_of (FloatOk 0)))
       ''us-east-1'' ''m5.xlarge'' = Inr (Some 0)
   \<and> demo_zones = [''us-east-1a'', ''us-east-1b'']
   \<and> map_sum id (map_option offerings)
       (process_instance_type (demo_env [m5_xlarge] CalledProcessError (pricing_of (FloatOk 0)))
          ''us-east-1'' ''m5.xlarge'' demo_zones)
     = Inr (Some [])"
proof -
  let ?w = "demo_env [m5_xlarge] CalledProcessError (pricing_of (FloatOk 0))"
  have od: "get_on_demand_price ?w ''us-east-1'' ''m5.xlarge'' = Inr (Some 0)"
    by (rule demo_on_demand)
  have "map_sum id (map_option offerings)
       (process_instance_type ?w ''us-east-1'' ''m5.xlarge'' demo_zones) = Inr (Some [])"
    by (simp add: demo_process [OF details_of_m5_xlarge demo_spot(2) od] demo_offerings)
  with od show ?thesis by (simp add: demo_zones_def)
qed

text \<open>
  C10. An offering is emitted only for a price that Python takes for true. A zone whose
  retained spot price is 0 gets no spot offering although the dictionary has an entry for
  it; an on-demand price of 0 gives no on-demand offering in any zone; and no offering of
  a record has the price 0.
\<close>

theorem no_offering_for_zero_price:
  assumes "process_instance_type w region it azs = Inr (Some r)"
    and "get_spot_prices w region it = Inr spot_prices"
    and "get_on_demand_price w region it = Inr od"
  shows "(\<forall>z info. spot_prices (Some z) = Some info \<and> price info = 0
            \<longrightarrow> filter (\<lambda>off. is_spot off \<and> in_zone z off) (offerings r) = [])
       \<and> (od = Some 0 \<longrightarrow> filter is_on_demand (offerings r) = [])
       \<and> (\<forall>off \<in> set (offerings r). Price off \<noteq> 0)"
proof -
  from process_instance_type_SomeD [OF assms(1)] assms(2,3) have
    offs: "offerings r = build_offerings spot_prices od azs"
    by auto
  have spot: "\<forall>z info. spot_prices (Some z) = Some info \<and> price info = 0
            \<longrightarrow> filter (\<lambda>off. is_spot off \<and> in_zone z off) (offerings r) = []"
    by (simp add: offs filter_spot_zone_offerings spot_offering_for_def)
  have on_demand: "od = Some 0 \<longrightarrow> filter is_on_demand (offerings r) = []"
    by (simp add: offs filter_on_demand_offerings)
  have nonzero: "\<forall>off \<in> set (offerings r). Price off \<noteq> 0"
    using offerings_price_nonzero by (simp add: offs)
  from spot on_demand nonzero show ?thesis by blast
qed

text \<open>
  Both at once: the second zone has the retained spot price 0 and the on-demand price is
  0, so the one offering of the record is the spot offering of the first zone.
\<close>

theorem no_offering_for_zero_price_witness:
  "get_spot_prices (demo_env [m5_xlarge] (spot_answer_of spot_entries_zero) (pricing_of (FloatOk 0)))
       ''us-east-1'' ''m5.xlarge''
     = Inr [Some ''us-east-1a'' \<mapsto> \<lparr>price = 3/100, available = True\<rparr>,
            Some ''us-east-1b'' \<mapsto> \<lparr>price = 0, available = True\<rparr>]
   \<and> get_on_demand_price (demo_env [m5_xlarge] (spot_answer_of spot_entries_zero) (pricing_of (FloatOk 0)))
       ''us-east-1'' ''m5.xlarge'' = Inr (Some 0)
   \<and> map_sum id (map_option offerings)
       (process_instance_type
          (demo_env [m5_xlarge] (spot_answer_of spot_entries_zero) (pricing_of (FloatOk 0)))
          ''us-east-1'' ''m5.xlarge'' demo_zones)
     = Inr (Some [spot_offering \<lparr>price = 3/100, available = True\<rparr> ''us-east-1a''])
   \<and> filter (\<lambda>off. is_spot off \<and> in_zone ''us-east-1b'' off)
        [spot_offering \<lparr>price = 3/100, available = True\<rparr> ''us-east-1a''] = []
   \<and> filter is_on_demand [spot_offering \<lparr>price = 3/100, available = True\<rparr> ''us-east-1a''] = []"
proof -
  let ?w = "demo_env [m5_xlarge] (spot_answer_of spot_entries_zero) (pricing_of (FloatOk 0))"
  let ?sp = "[Some ''us-east-1a'' \<mapsto> \<lparr>price = 3/100, available = True\<rparr>,
              Some ''us-east-1b'' \<mapsto> \<lparr>price = 0, available = True\<rparr>]"
  let ?offs = "[spot_offering \<lparr>price = 3/100, available = True\<rparr> ''us-east-1a'']"
  let ?r = "\<lparr>architecture = architecture m5_xlarge_details,
             operatingSystems = operatingSystems m5_xlarge_details,
             resources = resources m5_xlarge_details,
             name = ''m5.xlarge'',
             offerings = build_offerings ?sp (Some 0) demo_zones\<rparr>"
  have sp: "get_spot_prices ?w ''us-east-1'' ''m5.xlarge'' = Inr ?sp"
    by (simp only: demo_spot demo_spot_entries)
  have od: "get_on_demand_price ?w ''us-east-1'' ''m5.xlarge'' = Inr (Some 0)"
    by (rule demo_on_demand)
  have run: "process_instance_type ?w ''us-east-1'' ''m5.xlarge'' demo_zones = Inr (Some ?r)"
    by (rule demo_process [OF details_of_m5_xlarge sp od])
  have offs: "offerings ?r = ?offs"
    by (simp add: demo_offerings)
  have at_b: "?sp (Some ''us-east-1b'') = Some \<lparr>price = 0, available = True\<rparr>
              \<and> price \<lparr>price = 0, available = True\<rparr> = 0"
    by simp
  note props = no_offering_for_zero_price [OF run sp od]
  from props at_b have "filter (\<lambda>off. is_spot off \<and> in_zone ''us-east-1b'' off) (offerings ?r) = []"
    by blast
  then have a: "filter (\<lambda>off. is_spot off \<and> in_zone ''us-east-1b'' off) ?offs = []"
    by (simp only: offs)
  from props have "filter is_on_demand (offerings ?r) = []"
    by blast
  then have b: "filter is_on_demand ?offs = []"
    by (simp only: offs)
  have "map_sum id (map_option offerings)
       (process_instance_type ?w ''us-east-1'' ''m5.xlarge'' demo_zones) = Inr (Some ?offs)"
    by (simp add: run demo_offerings)
  with sp od a b show ?thesis by blast
qed

section \<open>Family tokens\<close>

lemma after_dot_star_no_line_feed:
  assumes "CHR 0x0A \<notin> set s"
  shows "after_dot_star s = []"
  using assms by (induction s) (auto simp: after_dot_star_def)

lemma after_dot_star_append:
  assumes "after_dot_star s \<noteq> []"
  shows "after_dot_star (s @ t) = after_dot_star s @ t"
  using assms by (induction s) (auto simp: after_dot_star_def)

lemma after_dot_star_length: "length (after_dot_star s) \<le> length s"
  by (simp add: after_dot_star_def length_dropWhile_le)

lemma size_suffix_at_strip_shorter:
  assumes "size_suffix_at (c # cs)"
  shows "length (after_dot_star (tl cs)) < length (c # cs)"
proof -
  have "length (after_dot_star (tl cs)) \<le> length (tl cs)" by (rule after_dot_star_length)
  then show ?thesis by simp
qed

lemma strip_size_suffix_fixed_Cons:
  assumes "strip_size_suffix (c # cs) = c # cs"
  shows "\<not> size_suffix_at (c # cs)" and "strip_size_suffix cs = cs"
proof -
  show no: "\<not> size_suffix_at (c # cs)"
  proof
    assume at: "size_suffix_at (c # cs)"
    then have "strip_size_suffix (c # cs) = after_dot_star (tl cs)" by simp
    with assms have "length (after_dot_star (tl cs)) = length (c # cs)" by simp
    with size_suffix_at_strip_shorter [OF at] show False by simp
  qed
  with assms show "strip_size_suffix cs = cs" by simp
qed

lemma size_suffix_at_extended:
  assumes "\<not> size_suffix_at (c # cs)"
  shows "\<not> size_suffix_at (c # cs @ CHR ''.'' # d # rest)"
proof (cases cs)
  case Nil
  then show ?thesis by (simp add: size_suffix_at_def is_digit_def)
next
  case (Cons d' rest')
  show ?thesis
  proof
    assume at: "size_suffix_at (c # cs @ CHR ''.'' # d # rest)"
    with Cons have dot: "c = CHR ''.''" and dig: "is_digit d'"
      and tail: "after_dot_star (rest' @ CHR ''.'' # d # rest) = []
                 \<or> after_dot_star (rest' @ CHR ''.'' # d # rest) = [CHR 0x0A]"
      by (simp_all add: size_suffix_at_def)
    from assms Cons dot dig have ne: "after_dot_star rest' \<noteq> []"
      by (auto simp: size_suffix_at_def)
    from after_dot_star_append [OF ne]
    have "length (after_dot_star (rest' @ CHR ''.'' # d # rest)) \<ge> 2" by simp
    with tail show False by auto
  qed
qed

lemma strip_size_suffix_append:
  assumes "is_digit d" and "CHR 0x0A \<notin> set rest" and "strip_size_suffix family = family"
  shows "strip_size_suffix (family @ CHR ''.'' # d # rest) = family"
  using assms(3)
proof (induction family)
  case Nil
  from assms(1,2) have "size_suffix_at (CHR ''.'' # d # rest)"
    by (simp add: size_suffix_at_def after_dot_star_no_line_feed)
  then show ?case using assms(2) by (simp add: after_dot_star_no_line_feed)
next
  case (Cons c cs)
  note fixed = strip_size_suffix_fixed_Cons [OF Cons.prems]
  from fixed(1) have "\<not> size_suffix_at (c # cs @ CHR ''.'' # d # rest)"
    by (rule size_suffix_at_extended)
  then show ?case using Cons.IH [OF fixed(2)] by simp
qed

lemma strip_size_suffix_examples:
  "strip_size_suffix ''g6'' = ''g6''" "strip_size_suffix ''m5'' = ''m5''"
  by (simp_all add: size_suffix_at_def is_digit_def)

text \<open>
  A line feed is the one character that \<^verbatim>\<open>.*\<close> does not cross: a suffix before a
  last line feed is cut and the line feed stays, a suffix with a line feed inside is not
  cut at all.
\<close>

lemma strip_size_suffix_line_feed_examples:
  "strip_size_suffix (''g6.2xlarge'' @ [CHR 0x0A]) = ''g6'' @ [CHR 0x0A]"
  "strip_size_suffix (''g6.2x'' @ [CHR 0x0A] @ ''large'') = ''g6.2x'' @ [CHR 0x0A] @ ''large''"
  by (simp_all add: size_suffix_at_def is_digit_def after_dot_star_def)

text \<open>
  A token in which no dot is directly followed by a digit has nothing the pattern could
  match, and the substitution returns it as it is.
\<close>

lemma no_dot_digit_Cons:
  assumes "\<forall>pre post x. c # cs = pre @ CHR ''.'' # x # post \<longrightarrow> \<not> is_digit x"
  shows "\<forall>pre post x. cs = pre @ CHR ''.'' # x # post \<longrightarrow> \<not> is_digit x"
    and "\<not> size_suffix_at (c # cs)"
proof -
  show "\<forall>pre post x. cs = pre @ CHR ''.'' # x # post \<longrightarrow> \<not> is_digit x"
  proof (intro allI impI)
    fix pre post x
    assume "cs = pre @ CHR ''.'' # x # post"
    then have "c # cs = (c # pre) @ CHR ''.'' # x # post" by simp
    with assms show "\<not> is_digit x" by blast
  qed
  show "\<not> size_suffix_at (c # cs)"
  proof
    assume at: "size_suffix_at (c # cs)"
    then obtain x post where cs: "cs = x # post" and dot: "c = CHR ''.''" and dig: "is_digit x"
      by (cases cs) (auto simp: size_suffix_at_def)
    then have "c # cs = [] @ CHR ''.'' # x # post" by simp
    with assms have "\<not> is_digit x" by blast
    with dig show False by simp
  qed
qed

lemma strip_size_suffix_no_dot_digit:
  assumes "\<forall>pre post x. s = pre @ CHR ''.'' # x # post \<longrightarrow> \<not> is_digit x"
  shows "strip_size_suffix s = s"
  using assms
proof (induction s)
  case Nil
  show ?case by simp
next
  case (Cons c cs)
  note parts = no_dot_digit_Cons [OF Cons.prems]
  from parts(2) Cons.IH [OF parts(1)] show ?case by simp
qed

lemma no_dot_no_dot_digit:
  assumes "CHR ''.'' \<notin> set s"
  shows "\<forall>pre post x. s = pre @ CHR ''.'' # x # post \<longrightarrow> \<not> is_digit x"
  using assms by auto

lemma collect_instance_types_step:
  "collect_instance_types w region (token # families) acc =
     (case aws_cli w [''aws'', ''ec2'', ''describe-instance-types'',
                      ''--region'', region,
                      ''--filters'', ''Name=instance-type,Values='' @ strip_size_suffix token @ ''.*''] of
        Completed result \<Rightarrow>
          collect_instance_types w region families (acc @ map InstanceType (InstanceTypes result))
      | CalledProcessError \<Rightarrow> Inl (SystemExit 1)
      | JSONDecodeError \<Rightarrow> Inl (SystemExit 1))"
  by (simp add: get_instance_types_for_family_def run_aws_command_def split: completed.splits)

lemma g6_cli:
  "aws_cli g6_env [''aws'', ''ec2'', ''describe-instance-types'', ''--region'', ''us-east-1'',
                   ''--filters'', ''Name=instance-type,Values='' @ ''g6'' @ ''.*'']
     = Completed (no_output\<lparr>InstanceTypes :=
               [m5_xlarge\<lparr>InstanceType := ''g6.xlarge''\<rparr>,
                m5_xlarge\<lparr>InstanceType := ''g6.2xlarge''\<rparr>]\<rparr>)"
  by (simp add: g6_env_def)

text \<open>
  C7. Take a bare family token, one in which no dot is directly followed by a digit, and
  append a size suffix: a dot, a digit, then any characters that a \<^verbatim>\<open>.\<close> of the
  pattern matches (no line feed). The substitution cuts the token back to the bare one,
  and the resolver does with it exactly what it does with the bare token: it runs the
  query for the bare family and goes on with the instance types of the answer, or leaves
  through \<^verbatim>\<open>sys.exit(1)\<close> when that query fails.
\<close>

theorem size_suffix_resolves_as_bare_family:
  assumes "is_digit d" and "CHR 0x0A \<notin> set rest"
    and "\<forall>pre post x. family = pre @ CHR ''.'' # x # post \<longrightarrow> \<not> is_digit x"
  shows "strip_size_suffix (family @ CHR ''.'' # d # rest) = family
       \<and> collect_instance_types w region ((family @ CHR ''.'' # d # rest) # families) acc =
           (case aws_cli w [''aws'', ''ec2'', ''describe-instance-types'',
                            ''--region'', region,
                            ''--filters'', ''Name=instance-type,Values='' @ family @ ''.*''] of
              Completed result \<Rightarrow>
                collect_instance_types w region families (acc @ map InstanceType (InstanceTypes result))
            | CalledProcessError \<Rightarrow> Inl (SystemExit 1)
            | JSONDecodeError \<Rightarrow> Inl (SystemExit 1))
       \<and> collect_instance_types w region (family # families) acc =
           (case aws_cli w [''aws'', ''ec2'', ''describe-instance-types'',
                            ''--region'', region,
                            ''--filters'', ''Name=instance-type,Values='' @ family @ ''.*''] of
              Completed result \<Rightarrow>
                collect_instance_types w region families (acc @ map InstanceType (InstanceTypes result))
            | CalledProcessError \<Rightarrow> Inl (SystemExit 1)
            | JSONDecodeError \<Rightarrow> Inl (SystemExit 1))"
proof -
  have bare: "strip_size_suffix family = family"
    using assms(3) by (rule strip_size_suffix_no_dot_digit)
  have cut: "strip_size_suffix (family @ CHR ''.'' # d # rest) = family"
    using assms(1,2) bare by (rule strip_size_suffix_append)
  show ?thesis
    by (simp only: collect_instance_types_step cut bare simp_thms)
qed

text \<open>
  The token \<^verbatim>\<open>g6.2xlarge\<close> resolves to the two sizes the region has of \<^verbatim>\<open>g6\<close>, as
  the token \<^verbatim>\<open>g6\<close> does.
\<close>

theorem size_suffix_resolves_as_bare_family_witness:
  "is_digit CHR ''2'' \<and> CHR 0x0A \<notin> set ''xlarge'' \<and> CHR ''.'' \<notin> set ''g6''
   \<and> strip_size_suffix ''g6.2xlarge'' = ''g6''
   \<and> collect_instance_types g6_env ''us-east-1'' [''g6.2xlarge''] [] = Inr [''g6.xlarge'', ''g6.2xlarge'']
   \<and> collect_instance_types g6_env ''us-east-1'' [''g6''] [] = Inr [''g6.xlarge'', ''g6.2xlarge'']"
proof -
  have d: "is_digit CHR ''2''" by (simp add: is_digit_def)
  have r: "CHR 0x0A \<notin> set ''xlarge''" by simp
  have nd: "CHR ''.'' \<notin> set ''g6''" by simp
  note bare = no_dot_no_dot_digit [OF nd]
  have token: "''g6'' @ CHR ''.'' # CHR ''2'' # ''xlarge'' = ''g6.2xlarge''" by simp
  have g6_types: "map InstanceType [m5_xlarge\<lparr>InstanceType := ''g6.xlarge''\<rparr>,
                                    m5_xlarge\<lparr>InstanceType := ''g6.2xlarge''\<rparr>]
                   = [''g6.xlarge'', ''g6.2xlarge'']"
    by simp
  note props = size_suffix_resolves_as_bare_family
                 [OF d r bare, where w = g6_env and region = "''us-east-1''"
                    and families = "[]" and acc = "[]"]
  from props have cut: "strip_size_suffix ''g6.2xlarge'' = ''g6''"
    by (simp only: token)
  from props have "collect_instance_types g6_env ''us-east-1'' [''g6.2xlarge''] []
      = Inr [''g6.xlarge'', ''g6.2xlarge'']"
    by (simp only: token g6_cli completed.case no_output_fields g6_types
        collect_instance_types.simps(1) append_Nil)
  moreover from props have "collect_instance_types g6_env ''us-east-1'' [''g6''] []
      = Inr [''g6.xlarge'', ''g6.2xlarge'']"
    by (simp only: token g6_cli completed.case no_output_fields g6_types
        collect_instance_types.simps(1) append_Nil)
  ultimately show ?thesis using d r nd cut by blast
qed

section \<open>The run\<close>

lemma collect_instance_types_nothing:
  assumes "\<forall>family \<in> set families.
             get_instance_types_for_family w region (strip_size_suffix family) = Inr []"
  shows "collect_instance_types w region families acc = Inr acc"
  using assms by (induction families arbitrary: acc) auto

lemma demo_zones_listed:
  "get_availability_zones (demo_env infos s p) ''us-east-1'' = Inr demo_zones"
  by (simp add: get_availability_zones_def run_aws_command_def demo_cli no_output_fields comp_def)

lemma demo_family:
  "get_instance_types_for_family (demo_env infos s p) ''us-east-1'' ''m5'' = Inr (map InstanceType infos)"
  using demo_cli(2) [of infos s p]
  by (simp add: get_instance_types_for_family_def run_aws_command_def no_output_fields)

text \<open>
  C8. When every requested family resolves to no instance type, the process ends with a
  status that is not 0 and has written no file.
\<close>

theorem no_instance_types_exits:
  assumes "\<forall>family \<in> set (instance_families a).
             get_instance_types_for_family w (region_arg a) (strip_size_suffix family) = Inr []"
  shows "exit_status (main w as_completed a) \<noteq> 0 \<and> written (main w as_completed a) = None"
proof -
  have "collect_instance_types w (region_arg a) (instance_families a) [] = Inr []"
    using assms by (rule collect_instance_types_nothing)
  then have "main_results w as_completed a = Inl (SystemExit 1)"
    by (auto simp: main_results_def get_availability_zones_def run_aws_command_def
        split: sum.splits completed.splits)
  then show ?thesis by (simp add: main_def)
qed

theorem no_instance_types_exits_witness:
  "get_instance_types_for_family (demo_env [] CalledProcessError CalledProcessError)
       ''us-east-1'' (strip_size_suffix ''m5'') = Inr []
   \<and> instance_families demo_args = [''m5'']
   \<and> exit_status (main (demo_env [] CalledProcessError CalledProcessError) id demo_args) \<noteq> 0
   \<and> written (main (demo_env [] CalledProcessError CalledProcessError) id demo_args) = None"
proof -
  have fam: "get_instance_types_for_family (demo_env [] CalledProcessError CalledProcessError)
       ''us-east-1'' (strip_size_suffix ''m5'') = Inr []"
    by (simp only: strip_size_suffix_examples demo_family list.map)
  then have "\<forall>family \<in> set (instance_families demo_args).
      get_instance_types_for_family (demo_env [] CalledProcessError CalledProcessError)
        (region_arg demo_args) (strip_size_suffix family) = Inr []"
    by (simp add: demo_args_def)
  from no_instance_types_exits [OF this, of id] fam show ?thesis
    by (simp add: demo_args_def)
qed

subsection \<open>Collecting the futures\<close>

lemma contribution_case:
  "contribution (it, x) = (case x of Inr (Some r) \<Rightarrow> Some r | _ \<Rightarrow> None)"
  by (cases x) (auto split: option.splits)

lemma collect_results_no_exit:
  assumes "\<forall>f \<in> set fs. \<forall>n. snd f \<noteq> Inl (SystemExit n)"
  shows "collect_results fs rs = Inr (rs @ List.map_filter contribution fs)"
  using assms
proof (induction fs rs rule: collect_results.induct)
  case (1 results)
  then show ?case by simp
next
  case (2 instance_type result futures results)
  then show ?case by simp
next
  case (3 instance_type futures results)
  then show ?case by simp
next
  case (4 instance_type e futures results)
  from "4.prems" have "is_Exception e" by (cases e) auto
  with 4 show ?case by simp
qed

lemma collect_results_drop:
  assumes "is_Exception e"
  shows "collect_results (before @ (it, Inl e) # after) rs = collect_results (before @ after) rs"
proof (induction before arbitrary: rs)
  case Nil
  from assms show ?case by simp
next
  case (Cons f before)
  obtain it' x where f: "f = (it', x)" by (cases f)
  show ?case
  proof (cases x)
    case (Inl e')
    with f Cons.IH show ?thesis by simp
  next
    case (Inr ro)
    with f Cons.IH show ?thesis by (cases ro) simp_all
  qed
qed

lemma map_filter_append:
  "List.map_filter f (xs @ ys) = List.map_filter f xs @ List.map_filter f ys"
  by (simp add: List.map_filter_def)

lemma mset_map_filter:
  assumes "mset xs = mset ys"
  shows "mset (List.map_filter f xs) = mset (List.map_filter f ys)"
proof -
  have "mset (List.map_filter f zs) = image_mset (the \<circ> f) (filter_mset (\<lambda>x. f x \<noteq> None) (mset zs))" for zs
    by (simp add: List.map_filter_def)
  with assms show ?thesis by simp
qed

lemma map_filter_map:
  "List.map_filter f (map g xs) = List.map_filter (f \<circ> g) xs"
  by (simp add: List.map_filter_def filter_map comp_def)

text \<open>
  C3, as the program has it. A spot query that fails, or whose answer cannot be read,
  leaves the instance type in the results: \<^verbatim>\<open>get_spot_prices\<close> catches the failure and
  returns an empty dictionary, so that the record is built all the same, without spot
  offering, and the collecting loop appends it.
\<close>

theorem spot_failure_keeps_instance_type:
  assumes "aws_cli w (describe_spot_price_history_command region it (current_time w)) = CalledProcessError
         \<or> aws_cli w (describe_spot_price_history_command region it (current_time w)) = JSONDecodeError"
    and "get_instance_details w region it = Inr (Some d)"
    and "get_on_demand_price w region it = Inr od"
  shows "\<exists>r. process_instance_type w region it azs = Inr (Some r)
           \<and> name r = it
           \<and> filter is_spot (offerings r) = []
           \<and> (\<forall>futures results.
                 collect_results ((it, process_instance_type w region it azs) # futures) results
                   = collect_results futures (results @ [r]))
           \<and> (\<forall>before after.
                 (\<forall>f \<in> set (before @ after). \<forall>n. snd f \<noteq> Inl (SystemExit n))
                 \<longrightarrow> (\<exists>results.
                        collect_results (before @ (it, process_instance_type w region it azs) # after) []
                          = Inr results
                        \<and> r \<in> set results))"
proof -
  let ?r = "\<lparr>architecture = architecture d, operatingSystems = operatingSystems d,
             resources = resources d, name = it,
             offerings = build_offerings Map.empty od azs\<rparr>"
  have sp: "get_spot_prices w region it = Inr Map.empty"
    using assms(1) by (rule get_spot_prices_failed)
  have run: "process_instance_type w region it azs = Inr (Some ?r)"
    using assms(2) sp assms(3) by (rule process_instance_type_returns)
  have no_spot: "filter is_spot (offerings ?r) = []"
    by (simp add: filter_spot_offerings spot_offering_for_def)
  have appended: "\<forall>futures results.
      collect_results ((it, process_instance_type w region it azs) # futures) results
        = collect_results futures (results @ [?r])"
    by (simp add: run)
  have present: "\<forall>before after.
      (\<forall>f \<in> set (before @ after). \<forall>n. snd f \<noteq> Inl (SystemExit n))
      \<longrightarrow> (\<exists>results.
             collect_results (before @ (it, process_instance_type w region it azs) # after) []
               = Inr results
             \<and> ?r \<in> set results)"
  proof (intro allI impI)
    fix before after :: "future list"
    assume ok: "\<forall>f \<in> set (before @ after). \<forall>n. snd f \<noteq> Inl (SystemExit n)"
    let ?fs = "before @ (it, process_instance_type w region it azs) # after"
    from ok have "\<forall>f \<in> set ?fs. \<forall>n. snd f \<noteq> Inl (SystemExit n)"
      by (auto simp: run)
    then have "collect_results ?fs [] = Inr ([] @ List.map_filter contribution ?fs)"
      by (rule collect_results_no_exit)
    moreover have "?r \<in> set (List.map_filter contribution ?fs)"
      by (simp add: map_filter_append run)
    ultimately show "\<exists>results. collect_results ?fs [] = Inr results \<and> ?r \<in> set results"
      by simp
  qed
  from run no_spot appended present show ?thesis
    by (intro exI [of _ ?r]) simp
qed

lemma demo_main_failed_spot:
  "main (demo_env [m5_xlarge] CalledProcessError (pricing_of (FloatOk (1/5)))) id demo_args
     = \<lparr>exit_status = 0,
        written = Some (''instance_types.json'',
          [\<lparr>architecture = ''amd64'', operatingSystems = [''linux''],
            resources = resources m5_xlarge_details,
            name = ''m5.xlarge'',
            offerings = [on_demand_offering (1/5) ''us-east-1a'',
                         on_demand_offering (1/5) ''us-east-1b'']\<rparr>])\<rparr>"
proof -
  let ?w = "demo_env [m5_xlarge] CalledProcessError (pricing_of (FloatOk (1/5)))"
  let ?r = "\<lparr>architecture = architecture m5_xlarge_details,
             operatingSystems = operatingSystems m5_xlarge_details,
             resources = resources m5_xlarge_details,
             name = ''m5.xlarge'',
             offerings = build_offerings Map.empty (Some (1/5)) demo_zones\<rparr>"
  have run: "process_instance_type ?w ''us-east-1'' ''m5.xlarge'' demo_zones = Inr (Some ?r)"
    by (rule demo_process [OF details_of_m5_xlarge demo_spot(2) demo_on_demand(1)])
  have types: "collect_instance_types ?w ''us-east-1'' [''m5''] [] = Inr [''m5.xlarge'']"
    by (simp add: strip_size_suffix_examples demo_family m5_xlarge_def
        del: strip_size_suffix.simps)
  have pool: "fan_out ?w id ''us-east-1'' demo_zones [''m5.xlarge''] = Inr [?r]"
    by (simp add: fan_out_def run)
  have args: "region_arg demo_args = ''us-east-1''" "instance_families demo_args = [''m5'']"
      "max_workers demo_args = 5" "output_arg demo_args = ''instance_types.json''"
    by (simp_all add: demo_args_def)
  have "main_results ?w id demo_args = Inr [?r]"
    unfolding main_results_def args demo_zones_listed types by (simp add: pool)
  then show ?thesis
    by (simp add: main_def args demo_offerings m5_xlarge_details_def)
qed

theorem spot_failure_keeps_instance_type_witness:
  "aws_cli (demo_env [m5_xlarge] CalledProcessError (pricing_of (FloatOk (1/5))))
       (describe_spot_price_history_command ''us-east-1'' ''m5.xlarge''
          (current_time (demo_env [m5_xlarge] CalledProcessError (pricing_of (FloatOk (1/5))))))
     = CalledProcessError
   \<and> map_sum id (map_option name)
       (process_instance_type (demo_env [m5_xlarge] CalledProcessError (pricing_of (FloatOk (1/5))))
          ''us-east-1'' ''m5.xlarge'' demo_zones)
     = Inr (Some ''m5.xlarge'')
   \<and> map_sum id (map_option (\<lambda>r. filter is_spot (offerings r)))
       (process_instance_type (demo_env [m5_xlarge] CalledProcessError (pricing_of (FloatOk (1/5))))
          ''us-east-1'' ''m5.xlarge'' demo_zones)
     = Inr (Some [])"
proof -
  let ?w = "demo_env [m5_xlarge] CalledProcessError (pricing_of (FloatOk (1/5)))"
  have cli: "aws_cli ?w (describe_spot_price_history_command ''us-east-1'' ''m5.xlarge'' (current_time ?w))
               = CalledProcessError"
    by (simp add: demo_cli)
  then have failed: "aws_cli ?w (describe_spot_price_history_command ''us-east-1'' ''m5.xlarge'' (current_time ?w))
               = CalledProcessError
             \<or> aws_cli ?w (describe_spot_price_history_command ''us-east-1'' ''m5.xlarge'' (current_time ?w))
               = JSONDecodeError"
    by (rule disjI1)
  have det: "get_instance_details ?w ''us-east-1'' ''m5.xlarge'' = Inr (Some m5_xlarge_details)"
    by (simp add: demo_details details_of_m5_xlarge)
  from spot_failure_keeps_instance_type [OF failed det demo_on_demand(1), of demo_zones]
  obtain r where "process_instance_type ?w ''us-east-1'' ''m5.xlarge'' demo_zones = Inr (Some r)"
    and "name r = ''m5.xlarge''" and "filter is_spot (offerings r) = []"
    by blast
  with cli show ?thesis by simp
qed

text \<open>
  C3 as it is written has the instance type left out when its spot query fails. Here the
  query for \<^verbatim>\<open>m5.xlarge\<close> fails, and the run ends with status 0 and a file that holds
  the record of \<^verbatim>\<open>m5.xlarge\<close>, with its on-demand offerings.
\<close>

theorem spot_failure_omits_counterexample:
  "aws_cli (demo_env [m5_xlarge] CalledProcessError (pricing_of (FloatOk (1/5))))
       (describe_spot_price_history_command ''us-east-1'' ''m5.xlarge''
          (current_time (demo_env [m5_xlarge] CalledProcessError (pricing_of (FloatOk (1/5))))))
     = CalledProcessError
   \<and> main (demo_env [m5_xlarge] CalledProcessError (pricing_of (FloatOk (1/5)))) id demo_args
     = \<lparr>exit_status = 0,
        written = Some (''instance_types.json'',
          [\<lparr>architecture = ''amd64'', operatingSystems = [''linux''],
            resources = resources m5_xlarge_details,
            name = ''m5.xlarge'',
            offerings = [on_demand_offering (1/5) ''us-east-1a'',
                         on_demand_offering (1/5) ''us-east-1b'']\<rparr>])\<rparr>"
  using demo_main_failed_spot by (simp add: demo_cli)

subsection \<open>One worker fails\<close>

lemma pair_cli:
  "aws_cli pair_env (describe_instance_types_command ''us-east-1'' ''m5.large'')
     = Completed (no_output\<lparr>InstanceTypes := [m5_large]\<rparr>)"
  "aws_cli pair_env (describe_spot_price_history_command ''us-east-1'' ''m5.large'' demo_time)
     = spot_answer_of [\<lparr>AvailabilityZone = Some ''us-east-1a'', SpotPrice = Some FloatValueError\<rparr>]"
  "aws_cli pair_env (describe_instance_types_command ''us-east-1'' ''m5.xlarge'')
     = Completed (no_output\<lparr>InstanceTypes := [m5_xlarge]\<rparr>)"
  "aws_cli pair_env (describe_spot_price_history_command ''us-east-1'' ''m5.xlarge'' demo_time)
     = CalledProcessError"
  "aws_cli pair_env (get_products_command ''us-east-1'' ''m5.xlarge'') = pricing_of (FloatOk (1/5))"
  "current_time pair_env = demo_time"
  by (simp_all add: pair_env_def demo_env_def describe_instance_types_command_def
      describe_spot_price_history_command_def get_products_command_def region_mapping_def)

lemma details_of_m5_large: "details_of_info m5_large = Inr m5_xlarge_details"
  by (simp add: details_of_info_def m5_large_def m5_xlarge_def m5_xlarge_details_def
      supported_architectures_def str_int_examples)

lemma pair_process_large:
  "process_instance_type pair_env ''us-east-1'' ''m5.large'' azs = Inl ValueError"
proof -
  have "get_instance_details pair_env ''us-east-1'' ''m5.large'' = Inr (Some m5_xlarge_details)"
    by (simp add: get_instance_details_def run_aws_command_def pair_cli no_output_fields
        details_of_m5_large)
  moreover have "get_spot_prices pair_env ''us-east-1'' ''m5.large'' = Inl ValueError"
    by (simp add: get_spot_prices_def pair_cli spot_answer_of_def no_output_fields)
  ultimately show ?thesis by (simp add: process_instance_type_def)
qed

lemma pair_process_xlarge:
  "process_instance_type pair_env ''us-east-1'' ''m5.xlarge'' azs =
     Inr (Some \<lparr>architecture = architecture m5_xlarge_details,
                operatingSystems = operatingSystems m5_xlarge_details,
                resources = resources m5_xlarge_details,
                name = ''m5.xlarge'',
                offerings = build_offerings Map.empty (Some (1/5)) azs\<rparr>)"
proof -
  have "get_instance_details pair_env ''us-east-1'' ''m5.xlarge'' = Inr (Some m5_xlarge_details)"
    by (simp add: get_instance_details_def run_aws_command_def pair_cli no_output_fields
        details_of_m5_xlarge)
  moreover have "get_spot_prices pair_env ''us-east-1'' ''m5.xlarge'' = Inr Map.empty"
    by (simp add: get_spot_prices_def pair_cli)
  moreover have "get_on_demand_price pair_env ''us-east-1'' ''m5.xlarge'' = Inr (Some (1/5))"
    by (simp add: get_on_demand_price_def pair_cli pricing_of_def no_output_fields)
  ultimately show ?thesis by (rule process_instance_type_returns)
qed

lemma collect_results_exit:
  assumes "\<exists>f \<in> set fs. \<exists>n. snd f = Inl (SystemExit n)"
  shows "\<exists>n. collect_results fs rs = Inl (SystemExit n)"
  using assms
proof (induction fs rs rule: collect_results.induct)
  case (1 results)
  then show ?case by simp
next
  case (2 instance_type result futures results)
  then show ?case by simp
next
  case (3 instance_type futures results)
  then show ?case by simp
next
  case (4 instance_type e futures results)
  show ?case
  proof (cases "is_Exception e")
    case True
    then have "\<forall>n. e \<noteq> SystemExit n" by auto
    with "4.prems" have "\<exists>f \<in> set futures. \<exists>n. snd f = Inl (SystemExit n)" by auto
    with True "4.IH" show ?thesis by simp
  next
    case False
    then obtain n where "e = SystemExit n" by (cases e) auto
    with False show ?thesis by simp
  qed
qed

lemma exit_cli:
  "aws_cli exit_env [''aws'', ''ec2'', ''describe-availability-zones'', ''--region'', ''us-east-1'']
     = Completed (no_output\<lparr>AvailabilityZones := map (\<lambda>z. \<lparr>ZoneName = z\<rparr>) demo_zones\<rparr>)"
  "aws_cli exit_env [''aws'', ''ec2'', ''describe-instance-types'', ''--region'', ''us-east-1'',
                     ''--filters'', ''Name=instance-type,Values='' @ ''m5'' @ ''.*'']
     = Completed (no_output\<lparr>InstanceTypes := [m5_large, m5_xlarge]\<rparr>)"
  "aws_cli exit_env (describe_instance_types_command ''us-east-1'' ''m5.large'') = CalledProcessError"
  "aws_cli exit_env (describe_instance_types_command ''us-east-1'' ''m5.xlarge'')
     = Completed (no_output\<lparr>InstanceTypes := [m5_xlarge]\<rparr>)"
  "aws_cli exit_env (describe_spot_price_history_command ''us-east-1'' ''m5.xlarge'' demo_time)
     = CalledProcessError"
  "aws_cli exit_env (get_products_command ''us-east-1'' ''m5.xlarge'') = pricing_of (FloatOk (1/5))"
  "current_time exit_env = demo_time"
  by (simp_all add: exit_env_def demo_env_def describe_instance_types_command_def
      describe_spot_price_history_command_def get_products_command_def region_mapping_def)

lemma exit_process_large:
  "process_instance_type exit_env ''us-east-1'' ''m5.large'' azs = Inl (SystemExit 1)"
proof -
  have "get_instance_details exit_env ''us-east-1'' ''m5.large'' = Inl (SystemExit 1)"
    by (simp add: get_instance_details_def run_aws_command_def exit_cli)
  then show ?thesis by (simp add: process_instance_type_def)
qed

lemma exit_process_xlarge:
  "process_instance_type exit_env ''us-east-1'' ''m5.xlarge'' azs =
     Inr (Some \<lparr>architecture = architecture m5_xlarge_details,
                operatingSystems = operatingSystems m5_xlarge_details,
                resources = resources m5_xlarge_details,
                name = ''m5.xlarge'',
                offerings = build_offerings Map.empty (Some (1/5)) azs\<rparr>)"
proof -
  have "get_instance_details exit_env ''us-east-1'' ''m5.xlarge'' = Inr (Some m5_xlarge_details)"
    by (simp add: get_instance_details_def run_aws_command_def exit_cli no_output_fields
        details_of_m5_xlarge)
  moreover have "get_spot_prices exit_env ''us-east-1'' ''m5.xlarge'' = Inr Map.empty"
    by (simp add: get_spot_prices_def exit_cli)
  moreover have "get_on_demand_price exit_env ''us-east-1'' ''m5.xlarge'' = Inr (Some (1/5))"
    by (simp add: get_on_demand_price_def exit_cli pricing_of_def no_output_fields)
  ultimately show ?thesis by (rule process_instance_type_returns)
qed

lemma exit_fan_out:
  "fan_out exit_env id ''us-east-1'' demo_zones [''m5.large'', ''m5.xlarge''] = Inl (SystemExit 1)"
  by (simp add: fan_out_def exit_process_large)

lemma exit_main:
  "main exit_env id demo_args = \<lparr>exit_status = 1, written = None\<rparr>"
proof -
  have args: "region_arg demo_args = ''us-east-1''" "instance_families demo_args = [''m5'']"
      "max_workers demo_args = 5"
    by (simp_all add: demo_args_def)
  have zones: "get_availability_zones exit_env ''us-east-1'' = Inr demo_zones"
    by (simp add: get_availability_zones_def run_aws_command_def exit_cli no_output_fields comp_def)
  have sizes: "map InstanceType [m5_large, m5_xlarge] = [''m5.large'', ''m5.xlarge'']"
    by (simp add: m5_large_def m5_xlarge_def)
  have types: "collect_instance_types exit_env ''us-east-1'' [''m5''] [] = Inr [''m5.large'', ''m5.xlarge'']"
    by (simp only: collect_instance_types_step strip_size_suffix_examples exit_cli completed.case
        no_output_fields sizes collect_instance_types.simps(1) append_Nil)
  have "main_results exit_env id demo_args = Inl (SystemExit 1)"
    unfolding main_results_def args zones types by (simp add: exit_fan_out)
  then show ?thesis by (simp add: main_def)
qed

text \<open>
  C9, as the program has it. Take a batch of instance types and any order of completion.
  When no enrichment ends the process through the \<^verbatim>\<open>sys.exit\<close> of
  \<^verbatim>\<open>run_aws_command\<close>, the results are exactly the records of the enrichments that
  returned one: an enrichment that raised an exception adds nothing, and every other
  record is there. When some enrichment does end through \<^verbatim>\<open>sys.exit\<close>, the
  \<^verbatim>\<open>SystemExit\<close> leaves the collecting loop and there are no results. And in any run,
  a future that holds an \<^verbatim>\<open>Exception\<close> is skipped: the loop goes on as if it had not
  been submitted.
\<close>

theorem worker_exception_is_isolated:
  assumes "mset (as_completed (map (\<lambda>it. (it, process_instance_type w region it azs)) its))
             = mset (map (\<lambda>it. (it, process_instance_type w region it azs)) its)"
  shows "((\<forall>it \<in> set its. \<forall>n. process_instance_type w region it azs \<noteq> Inl (SystemExit n))
          \<longrightarrow> (\<exists>results. fan_out w as_completed region azs its = Inr results
                 \<and> mset results =
                     mset (List.map_filter
                             (\<lambda>it. case process_instance_type w region it azs of
                                      Inr (Some r) \<Rightarrow> Some r
                                    | _ \<Rightarrow> None) its)))
       \<and> ((\<exists>it \<in> set its. \<exists>n. process_instance_type w region it azs = Inl (SystemExit n))
          \<longrightarrow> (\<exists>n. fan_out w as_completed region azs its = Inl (SystemExit n)))
       \<and> (\<forall>before after it e results. is_Exception e
            \<longrightarrow> collect_results (before @ (it, Inl e) # after) results
                  = collect_results (before @ after) results)"
proof -
  let ?fs = "map (\<lambda>it. (it, process_instance_type w region it azs)) its"
  let ?g = "\<lambda>it. case process_instance_type w region it azs of
                    Inr (Some r) \<Rightarrow> Some r
                  | _ \<Rightarrow> None"
  have same: "set (as_completed ?fs) = set ?fs"
    using assms by (rule mset_eq_setD)
  have first: "(\<forall>it \<in> set its. \<forall>n. process_instance_type w region it azs \<noteq> Inl (SystemExit n))
          \<longrightarrow> (\<exists>results. fan_out w as_completed region azs its = Inr results
                 \<and> mset results = mset (List.map_filter ?g its))"
  proof
    assume no_exit: "\<forall>it \<in> set its. \<forall>n. process_instance_type w region it azs \<noteq> Inl (SystemExit n)"
    then have "\<forall>f \<in> set ?fs. \<forall>n. snd f \<noteq> Inl (SystemExit n)"
      by auto
    with same have "\<forall>f \<in> set (as_completed ?fs). \<forall>n. snd f \<noteq> Inl (SystemExit n)"
      by simp
    then have "collect_results (as_completed ?fs) [] = Inr ([] @ List.map_filter contribution (as_completed ?fs))"
      by (rule collect_results_no_exit)
    then have run: "fan_out w as_completed region azs its = Inr (List.map_filter contribution (as_completed ?fs))"
      by (simp add: fan_out_def)
    have "mset (List.map_filter contribution (as_completed ?fs)) = mset (List.map_filter contribution ?fs)"
      using assms by (rule mset_map_filter)
    also have "List.map_filter contribution ?fs = List.map_filter ?g its"
      by (simp add: map_filter_map comp_def contribution_case)
    finally have "mset (List.map_filter contribution (as_completed ?fs)) = mset (List.map_filter ?g its)" .
    with run show "\<exists>results. fan_out w as_completed region azs its = Inr results
            \<and> mset results = mset (List.map_filter ?g its)"
      by blast
  qed
  have second: "(\<exists>it \<in> set its. \<exists>n. process_instance_type w region it azs = Inl (SystemExit n))
          \<longrightarrow> (\<exists>n. fan_out w as_completed region azs its = Inl (SystemExit n))"
  proof
    assume "\<exists>it \<in> set its. \<exists>n. process_instance_type w region it azs = Inl (SystemExit n)"
    then have "\<exists>f \<in> set ?fs. \<exists>n. snd f = Inl (SystemExit n)"
      by auto
    with same have "\<exists>f \<in> set (as_completed ?fs). \<exists>n. snd f = Inl (SystemExit n)"
      by simp
    then have "\<exists>n. collect_results (as_completed ?fs) [] = Inl (SystemExit n)"
      by (rule collect_results_exit)
    then show "\<exists>n. fan_out w as_completed region azs its = Inl (SystemExit n)"
      by (simp add: fan_out_def)
  qed
  have third: "\<forall>before after it e results. is_Exception e
            \<longrightarrow> collect_results (before @ (it, Inl e) # after) results
                  = collect_results (before @ after) results"
    by (simp add: collect_results_drop)
  from first second third show ?thesis by blast
qed

text \<open>
  Two workers, completing in the reverse of the order of submission: the enrichment of
  \<^verbatim>\<open>m5.large\<close> raises a \<^verbatim>\<open>ValueError\<close>, and the results hold the record of
  \<^verbatim>\<open>m5.xlarge\<close> alone.
\<close>

theorem worker_exception_is_isolated_witness:
  "process_instance_type pair_env ''us-east-1'' ''m5.large'' demo_zones = Inl ValueError
   \<and> is_Exception ValueError
   \<and> map_sum id (map name)
       (fan_out pair_env rev ''us-east-1'' demo_zones [''m5.large'', ''m5.xlarge''])
     = Inr [''m5.xlarge'']"
proof -
  let ?its = "[''m5.large'', ''m5.xlarge'']"
  let ?fs = "map (\<lambda>it. (it, process_instance_type pair_env ''us-east-1'' it demo_zones)) ?its"
  let ?r = "\<lparr>architecture = architecture m5_xlarge_details,
             operatingSystems = operatingSystems m5_xlarge_details,
             resources = resources m5_xlarge_details,
             name = ''m5.xlarge'',
             offerings = build_offerings Map.empty (Some (1/5)) demo_zones\<rparr>"
  have order: "mset (rev ?fs) = mset ?fs" by (rule mset_rev)
  have no_exit: "\<forall>it \<in> set ?its. \<forall>n.
      process_instance_type pair_env ''us-east-1'' it demo_zones \<noteq> Inl (SystemExit n)"
    by (simp add: pair_process_large pair_process_xlarge)
  have kept: "List.map_filter
        (\<lambda>it. case process_instance_type pair_env ''us-east-1'' it demo_zones of
                 Inr (Some r) \<Rightarrow> Some r
               | _ \<Rightarrow> None) ?its = [?r]"
    by (simp add: pair_process_large pair_process_xlarge)
  from worker_exception_is_isolated
         [where as_completed = rev and w = pair_env and region = "''us-east-1''"
            and azs = demo_zones and its = "[''m5.large'', ''m5.xlarge'']", OF order] no_exit
  obtain results where
    run: "fan_out pair_env rev ''us-east-1'' demo_zones ?its = Inr results"
    and "mset results = mset [?r]"
    unfolding kept by blast
  then have "results = [?r]" by simp
  with run have "map_sum id (map name)
       (fan_out pair_env rev ''us-east-1'' demo_zones ?its) = Inr [''m5.xlarge'']"
    by simp
  then show ?thesis by (simp add: pair_process_large)
qed

text \<open>
  C9 as it is written holds for every batch. Here the query for the details of
  \<^verbatim>\<open>m5.large\<close> fails inside its worker, \<^verbatim>\<open>run_aws_command\<close> calls
  \<^verbatim>\<open>sys.exit(1)\<close>, and the \<^verbatim>\<open>SystemExit\<close> passes \<^verbatim>\<open>except Exception\<close>: the
  enrichment of \<^verbatim>\<open>m5.xlarge\<close> returns its record, but the run ends with status 1 and
  writes nothing.
\<close>

theorem worker_exit_aborts_batch_counterexample:
  "process_instance_type exit_env ''us-east-1'' ''m5.large'' demo_zones = Inl (SystemExit 1)
   \<and> map_sum id (map_option name)
       (process_instance_type exit_env ''us-east-1'' ''m5.xlarge'' demo_zones)
     = Inr (Some ''m5.xlarge'')
   \<and> fan_out exit_env id ''us-east-1'' demo_zones [''m5.large'', ''m5.xlarge''] = Inl (SystemExit 1)
   \<and> main exit_env id demo_args = \<lparr>exit_status = 1, written = None\<rparr>"
  by (simp add: exit_process_large exit_process_xlarge exit_fan_out exit_main)

end
